theory Spec2Isabelle
  imports Complex_Main "HOL-Library.Word"
begin

unbundle bit_operations_syntax

section \<open>The MIDI packet handler (src/src/midi_handler.py)\<close>

text \<open>
  A packet is a Python \<^verbatim>\<open>bytes\<close> object: a finite sequence of integers in 0..255,
  here a list of 8-bit words. The values handed to the callbacks are Python integers,
  here \<open>int\<close>, read from a byte with \<open>uint\<close>.

  The three callbacks of \<^verbatim>\<open>MidiHandler\<close> are arbitrary Python callables. A callback
  acts on some state of the rest of the program and either returns or raises, so it is
  a function from the state to an error or the next state; a callback that raises is
  taken to leave the state as it found it. The control-change callback is optional
  (\<^verbatim>\<open>None\<close> by default).
\<close>

type_synonym byte = "8 word"

datatype py_error = IndexError | CallbackRaised | MidoRaised

record 's MidiHandler =
  note_on_cb :: "int \<Rightarrow> int \<Rightarrow> 's \<Rightarrow> py_error + 's"
  note_off_cb :: "int \<Rightarrow> 's \<Rightarrow> py_error + 's"
  control_change_cb :: "(int \<Rightarrow> int \<Rightarrow> 's \<Rightarrow> py_error + 's) option"

text \<open>Indexing \<^verbatim>\<open>data[i]\<close> with a non-negative index: IndexError past the end.\<close>

definition byte_at :: "byte list \<Rightarrow> nat \<Rightarrow> py_error + byte" where
  "byte_at data i = (if i < length data then Inr (data ! i) else Inl IndexError)"

text \<open>
  The callback dispatch of lines 51 to 59, for a message of type \<open>typ\<close> with the two
  bytes \<open>a\<close> and \<open>b\<close> that follow the status byte.
\<close>

definition dispatch :: "'s MidiHandler \<Rightarrow> byte \<Rightarrow> byte \<Rightarrow> byte \<Rightarrow> 's \<Rightarrow> py_error + 's" where
  "dispatch h typ a b s =
     (if typ = 0x90 then
        (if 0 < b then note_on_cb h (uint a) (uint b) s
         else note_off_cb h (uint a) s)
      else if typ = 0x80 then note_off_cb h (uint a) s
      else if typ = 0xB0 then
        (case control_change_cb h of
           Some cc \<Rightarrow> cc (uint a) (uint b) s
         | None \<Rightarrow> Inr s)
      else Inr s)"

text \<open>
  One iteration of the \<^verbatim>\<open>while i < len(data)\<close> loop (lines 42 to 66), entered at cursor
  \<open>i\<close>: the result is the cursor and the state at the end of the iteration, or the
  exception that left the loop. The channel \<^verbatim>\<open>ch\<close> of line 48 is computed and never
  used, and has no counterpart here.
\<close>

definition loop_body :: "'s MidiHandler \<Rightarrow> byte list \<Rightarrow> nat \<Rightarrow> 's \<Rightarrow> py_error + (nat \<times> 's)" where
  "loop_body h data i s =
     (case byte_at data i of
        Inl e \<Rightarrow> Inl e
      | Inr status \<Rightarrow>
          if 0x80 \<le> status \<and> status \<le> 0xEF then
            (let typ = status AND 0xF0 in
               if typ \<in> {0x80, 0x90, 0xB0} then
                 (if i + 2 < length data then
                    (case byte_at data (i + 1) of
                       Inl e \<Rightarrow> Inl e
                     | Inr a \<Rightarrow>
                         (case byte_at data (i + 2) of
                            Inl e \<Rightarrow> Inl e
                          | Inr b \<Rightarrow>
                              (case dispatch h typ a b s of
                                 Inl e \<Rightarrow> Inl e
                               | Inr s' \<Rightarrow> Inr (i + 3, s'))))
                  else Inr (i + 1, s))
               else Inr (i + 1, s))
          else Inr (i + 1, s))"

text \<open>
  The loop, from cursor \<open>i\<close>. Every iteration that returns moves the cursor forward,
  so the distance to the end of the buffer decreases and the recursion terminates.
\<close>

function handle_packet_loop :: "'s MidiHandler \<Rightarrow> byte list \<Rightarrow> nat \<Rightarrow> 's \<Rightarrow> py_error + 's" where
  "handle_packet_loop h data i s =
     (if i < length data then
        (case loop_body h data i s of
           Inl e \<Rightarrow> Inl e
         | Inr (i', s') \<Rightarrow> handle_packet_loop h data i' s')
      else Inr s)"
  by pat_completeness auto
termination
proof (relation "measure (\<lambda>(h, data, i, s). length data - i)")
  show "wf (measure (\<lambda>(h, data, i, s). length data - i))"
    by simp
next
  fix h :: "'s MidiHandler" and data i s x2 x y
  assume inside: "i < length data" and "loop_body h data i s = Inr x2" and "(x, y) = x2"
  then have "loop_body h data i s = Inr (x, y)"
    by simp
  with inside have "i < x \<and> x \<le> length data"
    by (auto simp: loop_body_def byte_at_def Let_def split: if_splits sum.splits)
  with inside show "((h, data, x, y), (h, data, i, s)) \<in> measure (\<lambda>(h, data, i, s). length data - i)"
    by auto
qed

declare handle_packet_loop.simps [simp del]

text \<open>
  The path through the optional \<^verbatim>\<open>mido\<close> library (lines 30 to 37 and 68 to 77). The
  library is not part of the repository. Of a \<^verbatim>\<open>mido.Message\<close> the code reads the type
  and, depending on the type, the attributes \<^verbatim>\<open>note\<close>, \<^verbatim>\<open>velocity\<close>, \<^verbatim>\<open>control\<close> and
  \<^verbatim>\<open>value\<close>; these are the fields of a message here.
\<close>

record mido_message =
  msg_type :: string
  msg_note :: int
  msg_velocity :: int
  msg_control :: int
  msg_value :: int

text \<open>\<^verbatim>\<open>_handle_mido_message\<close> (lines 68 to 77).\<close>

definition handle_mido_message :: "'s MidiHandler \<Rightarrow> mido_message \<Rightarrow> 's \<Rightarrow> py_error + 's" where
  "handle_mido_message h msg s =
     (if msg_type msg = ''note_on'' then
        (if 0 < msg_velocity msg then note_on_cb h (msg_note msg) (msg_velocity msg) s
         else note_off_cb h (msg_note msg) s)
      else if msg_type msg = ''note_off'' then note_off_cb h (msg_note msg) s
      else if msg_type msg = ''control_change'' then
        (case control_change_cb h of
           Some cc \<Rightarrow> cc (msg_control msg) (msg_value msg) s
         | None \<Rightarrow> Inr s)
      else Inr s)"

text \<open>
  The \<^verbatim>\<open>for msg in mido.parse_all(data)\<close> loop of lines 32 and 33: the result is the state
  reached, and the exception if a callback raised.
\<close>

fun handle_mido_messages :: "'s MidiHandler \<Rightarrow> mido_message list \<Rightarrow> 's \<Rightarrow> 's \<times> py_error option" where
  "handle_mido_messages h [] s = (s, None)"
| "handle_mido_messages h (msg # msgs) s =
     (case handle_mido_message h msg s of
        Inl e \<Rightarrow> (s, Some e)
      | Inr s' \<Rightarrow> handle_mido_messages h msgs s')"

text \<open>
  \<^verbatim>\<open>handle_packet\<close> (lines 25 to 66). The argument \<open>mido\<close> is the module-level name
  \<^verbatim>\<open>mido\<close>: \<open>None\<close> where the library could not be imported (lines 3 to 6), and
  otherwise the library's \<^verbatim>\<open>parse_all\<close>, a function that raises or returns the list of
  the messages of a packet. Any exception raised under the \<^verbatim>\<open>try\<close>, by the library or by a
  callback, is dropped, and the fallback loop then runs from cursor 0 on the state reached.
\<close>

definition handle_packet ::
  "'s MidiHandler \<Rightarrow> (byte list \<Rightarrow> py_error + mido_message list) option \<Rightarrow> byte list \<Rightarrow> 's
     \<Rightarrow> py_error + 's" where
  "handle_packet h mido data s =
     (case mido of
        None \<Rightarrow> handle_packet_loop h data 0 s
      | Some parse_all \<Rightarrow>
          (case parse_all data of
             Inl e \<Rightarrow> handle_packet_loop h data 0 s
           | Inr msgs \<Rightarrow>
               (case handle_mido_messages h msgs s of
                  (s', None) \<Rightarrow> Inr s'
                | (s', Some e) \<Rightarrow> handle_packet_loop h data 0 s')))"

text \<open>
  To observe which callbacks a packet invokes, and with which arguments, the handler is
  run with three callbacks that append their invocation to a log and return.
\<close>

datatype midi_call = Note_on int int | Note_off int | Control_change int int

definition recording_handler :: "midi_call list MidiHandler" where
  "recording_handler =
     \<lparr> note_on_cb = (\<lambda>note velocity calls. Inr (calls @ [Note_on note velocity])),
       note_off_cb = (\<lambda>note calls. Inr (calls @ [Note_off note])),
       control_change_cb = Some (\<lambda>cc val calls. Inr (calls @ [Control_change cc val])) \<rparr>"

fun call_args :: "midi_call \<Rightarrow> int list" where
  "call_args (Note_on note velocity) = [note, velocity]"
| "call_args (Note_off note) = [note]"
| "call_args (Control_change cc val) = [cc, val]"

section \<open>The audio engine (src/src/audio_engine.py)\<close>

text \<open>
  A \<^verbatim>\<open>pygame.mixer.Sound\<close> holds a buffer of stereo frames of signed 16-bit samples and a
  playback gain; a new Sound has gain 1. The field \<open>volume\<close> is the gain of the Sound,
  what \<^verbatim>\<open>get_volume\<close> returns. A gain is a Python float; it is idealised as a real
  number. A \<^verbatim>\<open>pygame.mixer.Channel\<close> is identified by a number.
\<close>

type_synonym frames = "(16 word \<times> 16 word) list"

type_synonym channel = nat

record sound =
  samples :: frames
  volume :: real

definition make_sound :: "frames \<Rightarrow> sound" where
  "make_sound stereo = \<lparr> samples = stereo, volume = 1 \<rparr>"

text \<open>
  \<^verbatim>\<open>Sound.set_volume\<close> of the pygame library, whose code is not part of the repository,
  as the library documents it: a negative value leaves the gain as it is, and a value
  above 1 sets the gain to 1. The mixer keeps the gain as a whole number of 128ths,
  rounding down.
\<close>

definition set_volume :: "sound \<Rightarrow> real \<Rightarrow> sound" where
  "set_volume sound v =
     (if v < 0 then sound
      else sound\<lparr>volume := real_of_int (min 128 \<lfloor>v * 128\<rfloor>) / 128\<rparr>)"

text \<open>
  The calls that the engine makes into the mixer and that start or fade audio:
  \<^verbatim>\<open>sound.play()\<close>, with the Sound as it is at the call, and
  \<^verbatim>\<open>channel.fadeout(ms)\<close>.
\<close>

datatype mixer_call = Play sound | Fadeout channel int

text \<open>
  The fields of \<^verbatim>\<open>AudioEngine\<close>: \<open>active\<close> is the dictionary \<^verbatim>\<open>self._active\<close>,
  \<open>drum_samples\<close> is \<^verbatim>\<open>self._drum_samples\<close>, \<open>note_map\<close> is \<^verbatim>\<open>self._note_map\<close>.
  \<open>mixer_calls\<close> is the sequence of calls made into the mixer so far.
\<close>

record AudioEngine =
  sample_rate :: int
  active :: "int \<rightharpoonup> channel"
  drum_samples :: "string \<rightharpoonup> sound"
  note_map :: "int \<rightharpoonup> string"
  mixer_calls :: "mixer_call list"

text \<open>
  The stereo buffers of the Sounds that the seven \<^verbatim>\<open>_create_*\<close> methods return while the
  engine is constructed, one per method, with the base frequency as the argument of
  \<^verbatim>\<open>_create_tom\<close>. The methods themselves are embedded further down; the buffers they
  return depend on pseudo-random noise, so the constructor takes them as given.
\<close>

record synthesis =
  kick_buffer :: frames
  snare_buffer :: frames
  hihat_closed_buffer :: frames
  hihat_open_buffer :: frames
  tom_buffer :: "int \<Rightarrow> frames"
  crash_buffer :: frames
  ride_buffer :: frames

definition generate_drum_samples :: "synthesis \<Rightarrow> (string \<rightharpoonup> sound)" where
  "generate_drum_samples syn =
     [ ''kick'' \<mapsto> make_sound (kick_buffer syn),
       ''snare'' \<mapsto> make_sound (snare_buffer syn),
       ''hihat_closed'' \<mapsto> make_sound (hihat_closed_buffer syn),
       ''hihat_open'' \<mapsto> make_sound (hihat_open_buffer syn),
       ''tom_low'' \<mapsto> make_sound (tom_buffer syn 120),
       ''tom_mid'' \<mapsto> make_sound (tom_buffer syn 180),
       ''tom_high'' \<mapsto> make_sound (tom_buffer syn 250),
       ''crash'' \<mapsto> make_sound (crash_buffer syn),
       ''ride'' \<mapsto> make_sound (ride_buffer syn) ]"

definition AudioEngine_init :: "synthesis \<Rightarrow> int \<Rightarrow> AudioEngine" where
  "AudioEngine_init syn rate =
     \<lparr> sample_rate = rate,
       active = Map.empty,
       drum_samples = generate_drum_samples syn,
       note_map =
         [ 35 \<mapsto> ''kick'',
           36 \<mapsto> ''kick'',
           38 \<mapsto> ''snare'',
           40 \<mapsto> ''snare'',
           42 \<mapsto> ''hihat_closed'',
           44 \<mapsto> ''hihat_closed'',
           46 \<mapsto> ''hihat_open'',
           47 \<mapsto> ''tom_low'',
           48 \<mapsto> ''tom_mid'',
           50 \<mapsto> ''tom_high'',
           49 \<mapsto> ''crash'',
           51 \<mapsto> ''ride'',
           52 \<mapsto> ''crash'',
           53 \<mapsto> ''ride'',
           41 \<mapsto> ''tom_low'',
           43 \<mapsto> ''tom_low'',
           45 \<mapsto> ''tom_mid'' ],
       mixer_calls = [] \<rparr>"

text \<open>Line 238: \<^verbatim>\<open>self._note_map.get(note, "snare")\<close>.\<close>

definition drum_type :: "AudioEngine \<Rightarrow> int \<Rightarrow> string" where
  "drum_type eng note = (case note_map eng note of Some d \<Rightarrow> d | None \<Rightarrow> ''snare'')"

text \<open>
  \<^verbatim>\<open>note_on\<close>. The argument \<open>played\<close> is what \<^verbatim>\<open>sound.play()\<close> returns: a Channel, or
  \<^verbatim>\<open>None\<close> when the mixer has no free channel. The method returns early when the bank
  has no Sound for the drum type. The gain is set on the Sound object of the bank
  itself, which every trigger of that drum type shares.
\<close>

definition note_on :: "AudioEngine \<Rightarrow> int \<Rightarrow> int \<Rightarrow> channel option \<Rightarrow> AudioEngine" where
  "note_on eng note velocity played =
     (case drum_samples eng (drum_type eng note) of
        None \<Rightarrow> eng
      | Some sound \<Rightarrow>
          (let sound' = set_volume sound (real_of_int velocity / 127);
               eng' = eng\<lparr>drum_samples := (drum_samples eng)(drum_type eng note \<mapsto> sound'),
                          mixer_calls := mixer_calls eng @ [Play sound']\<rparr>
           in case played of
                Some ch \<Rightarrow> eng'\<lparr>active := (active eng')(note \<mapsto> ch)\<rparr>
              | None \<Rightarrow> eng'))"

text \<open>
  \<^verbatim>\<open>note_off\<close>. \<^verbatim>\<open>self._active.pop(note, None)\<close> removes the entry if there is one. The
  argument \<open>fade_raises\<close> tells whether \<^verbatim>\<open>channel.fadeout(100)\<close> raises; the exception
  is caught and dropped.
\<close>

definition note_off :: "AudioEngine \<Rightarrow> int \<Rightarrow> bool \<Rightarrow> AudioEngine" where
  "note_off eng note fade_raises =
     (let eng' = eng\<lparr>active := (active eng)(note := None)\<rparr>
      in case active eng note of
           None \<Rightarrow> eng'
         | Some ch \<Rightarrow>
             if fade_raises then eng'
             else eng'\<lparr>mixer_calls := mixer_calls eng' @ [Fadeout ch 100]\<rparr>)"

text \<open>A sequence of calls of the two methods, each with what the mixer answered.\<close>

datatype engine_call = Call_note_on int int "channel option" | Call_note_off int bool

fun run_call :: "AudioEngine \<Rightarrow> engine_call \<Rightarrow> AudioEngine" where
  "run_call eng (Call_note_on note velocity played) = note_on eng note velocity played"
| "run_call eng (Call_note_off note fade_raises) = note_off eng note fade_raises"

definition run_calls :: "AudioEngine \<Rightarrow> engine_call list \<Rightarrow> AudioEngine" where
  "run_calls eng calls = foldl run_call eng calls"

text \<open>Buffers used where a theorem is exercised on a concrete engine.\<close>

definition example_synthesis :: synthesis where
  "example_synthesis =
     \<lparr> kick_buffer = [(29490, 29490), (-3, -3)],
       snare_buffer = [(27851, 27851)],
       hihat_closed_buffer = [(19660, 19660)],
       hihat_open_buffer = [(16383, 16383)],
       tom_buffer = (\<lambda>base_freq. [(26213, 26213), (word_of_int base_freq, word_of_int base_freq)]),
       crash_buffer = [(19660, 19660)],
       ride_buffer = [(21298, 21298)] \<rparr>"

section \<open>The synthesis recipes (src/src/audio_engine.py, lines 77 to 233)\<close>

text \<open>
  The recipes compute with NumPy arrays of floats. A float is idealised as a real number,
  and an array of \<^verbatim>\<open>samples\<close> elements as the list of its elements at the indices below
  \<^verbatim>\<open>samples\<close>; an operation on arrays acts element by element. The argument \<open>randn\<close>
  stands for the array \<^verbatim>\<open>np.random.randn(samples)\<close> of pseudo-random numbers that a recipe
  draws: \<open>randn k\<close> is its element at index \<open>k\<close>, taken as given. The argument
  \<open>rate\<close> is \<^verbatim>\<open>self.sample_rate\<close>.
\<close>

text \<open>Python's \<^verbatim>\<open>int\<close> of a float rounds towards zero.\<close>

definition py_int :: "real \<Rightarrow> int" where
  "py_int x = (if 0 \<le> x then \<lfloor>x\<rfloor> else \<lceil>x\<rceil>)"

text \<open>
  The element at index \<open>k\<close> of \<^verbatim>\<open>np.linspace(0, duration, num, False)\<close>: the interval is
  cut in \<^verbatim>\<open>num\<close> steps and the end point is left out.
\<close>

definition linspace :: "real \<Rightarrow> int \<Rightarrow> nat \<Rightarrow> real" where
  "linspace duration num k = real k * (duration / real_of_int num)"

text \<open>
  What can go wrong in a recipe. \<^verbatim>\<open>np.max\<close> of an empty array raises ValueError, and so
  does \<^verbatim>\<open>np.linspace\<close> with a negative number of samples; both are the empty list here.
  Where the peak of the waveform is 0, the division yields NaN samples and no exception;
  their conversion to 16-bit integers is not defined, and the model stops there.
\<close>

datatype numpy_error = ValueError | NaN_samples

text \<open>
  The last four lines of every recipe, for the target peak of the recipe:
  \<^verbatim>\<open>wave = wave / np.max(np.abs(wave)) * target\<close>, then
  \<^verbatim>\<open>audio = (wave * (2 ** 15 - 1)).astype(np.int16)\<close>, in which the conversion rounds towards
  zero, then \<^verbatim>\<open>stereo = np.column_stack((audio, audio))\<close> and
  \<^verbatim>\<open>pygame.sndarray.make_sound(stereo)\<close>.
\<close>

definition normalize :: "real \<Rightarrow> real list \<Rightarrow> numpy_error + real list" where
  "normalize target wave =
     (if wave = [] then Inl ValueError
      else
        (let peak = Max (set (map abs wave)) in
           if peak = 0 then Inl NaN_samples
           else Inr (map (\<lambda>x. x / peak * target) wave)))"

definition astype_int16 :: "real \<Rightarrow> 16 word" where
  "astype_int16 x = word_of_int (py_int x)"

definition column_stack :: "16 word list \<Rightarrow> frames" where
  "column_stack audio = map (\<lambda>a. (a, a)) audio"

definition normalize_and_convert :: "real \<Rightarrow> real list \<Rightarrow> numpy_error + sound" where
  "normalize_and_convert target wave =
     (case normalize target wave of
        Inl e \<Rightarrow> Inl e
      | Inr w \<Rightarrow> Inr (make_sound (column_stack (map (\<lambda>x. astype_int16 (x * (2 ^ 15 - 1))) w))))"

text \<open>\<^verbatim>\<open>_create_kick\<close>: the waveform of lines 79 to 99, and the method.\<close>

definition kick_wave :: "int \<Rightarrow> (nat \<Rightarrow> real) \<Rightarrow> real list" where
  "kick_wave rate randn =
     (let duration = 5 / 10;
          samples = py_int (real_of_int rate * duration);
          t = linspace duration samples;
          freq = (\<lambda>k. max (150 * exp (- 8 * t k)) 40);
          phase = (\<lambda>k. 2 * pi * (\<Sum>j\<le>k. freq j) / real_of_int rate);
          envelope = (\<lambda>k. exp (- 8 * t k));
          click = (\<lambda>k. exp (- 100 * t k) * randn k * (3 / 10))
      in map (\<lambda>k. sin (phase k) * envelope k + click k) [0..<nat samples])"

definition create_kick :: "int \<Rightarrow> (nat \<Rightarrow> real) \<Rightarrow> numpy_error + sound" where
  "create_kick rate randn = normalize_and_convert (9 / 10) (kick_wave rate randn)"

text \<open>\<^verbatim>\<open>_create_snare\<close>: the waveform of lines 109 to 122, and the method.\<close>

definition snare_wave :: "int \<Rightarrow> (nat \<Rightarrow> real) \<Rightarrow> real list" where
  "snare_wave rate randn =
     (let duration = 2 / 10;
          samples = py_int (real_of_int rate * duration);
          t = linspace duration samples;
          tone = (\<lambda>k. sin (2 * pi * 200 * t k) * exp (- 15 * t k));
          noise = (\<lambda>k. randn k * exp (- 12 * t k))
      in map (\<lambda>k. tone k * (3 / 10) + noise k * (7 / 10)) [0..<nat samples])"

definition create_snare :: "int \<Rightarrow> (nat \<Rightarrow> real) \<Rightarrow> numpy_error + sound" where
  "create_snare rate randn = normalize_and_convert (85 / 100) (snare_wave rate randn)"

text \<open>\<^verbatim>\<open>_create_hihat_closed\<close>: the waveform of lines 132 to 144, and the method.\<close>

definition hihat_closed_wave :: "int \<Rightarrow> (nat \<Rightarrow> real) \<Rightarrow> real list" where
  "hihat_closed_wave rate randn =
     (let duration = 5 / 100;
          samples = py_int (real_of_int rate * duration);
          t = linspace duration samples;
          noise = (\<lambda>k. randn k * (1 + 5 * sin (2 * pi * 8000 * t k)));
          envelope = (\<lambda>k. exp (- 80 * t k))
      in map (\<lambda>k. noise k * envelope k) [0..<nat samples])"

definition create_hihat_closed :: "int \<Rightarrow> (nat \<Rightarrow> real) \<Rightarrow> numpy_error + sound" where
  "create_hihat_closed rate randn =
     normalize_and_convert (6 / 10) (hihat_closed_wave rate randn)"

text \<open>\<^verbatim>\<open>_create_hihat_open\<close>: the waveform of lines 153 to 163, and the method.\<close>

definition hihat_open_wave :: "int \<Rightarrow> (nat \<Rightarrow> real) \<Rightarrow> real list" where
  "hihat_open_wave rate randn =
     (let duration = 3 / 10;
          samples = py_int (real_of_int rate * duration);
          t = linspace duration samples;
          noise = (\<lambda>k. randn k * (1 + 3 * sin (2 * pi * 7000 * t k)));
          envelope = (\<lambda>k. exp (- 8 * t k))
      in map (\<lambda>k. noise k * envelope k) [0..<nat samples])"

definition create_hihat_open :: "int \<Rightarrow> (nat \<Rightarrow> real) \<Rightarrow> numpy_error + sound" where
  "create_hihat_open rate randn =
     normalize_and_convert (5 / 10) (hihat_open_wave rate randn)"

text \<open>
  \<^verbatim>\<open>_create_tom\<close>: the waveform of lines 172 to 187, and the method. This recipe draws no
  random numbers.
\<close>

definition tom_wave :: "int \<Rightarrow> real \<Rightarrow> real list" where
  "tom_wave rate base_freq =
     (let duration = 4 / 10;
          samples = py_int (real_of_int rate * duration);
          t = linspace duration samples;
          freq = (\<lambda>k. base_freq * exp (- 5 * t k));
          phase = (\<lambda>k. 2 * pi * (\<Sum>j\<le>k. freq j) / real_of_int rate);
          envelope = (\<lambda>k. exp (- 7 * t k))
      in map (\<lambda>k. (sin (phase k) + (3 / 10) * sin (2 * phase k) + (1 / 10) * sin (3 * phase k))
                    * envelope k) [0..<nat samples])"

definition create_tom :: "int \<Rightarrow> real \<Rightarrow> numpy_error + sound" where
  "create_tom rate base_freq =
     normalize_and_convert (8 / 10) (tom_wave rate base_freq)"

text \<open>\<^verbatim>\<open>_create_crash\<close>: the waveform of lines 196 to 209, and the method.\<close>

definition crash_wave :: "int \<Rightarrow> (nat \<Rightarrow> real) \<Rightarrow> real list" where
  "crash_wave rate randn =
     (let duration = 15 / 10;
          samples = py_int (real_of_int rate * duration);
          t = linspace duration samples;
          noise = (\<lambda>k. fold (\<lambda>freq x. x * (1 + (3 / 10) * sin (2 * pi * freq * t k)))
                          [3000, 5000, 8000, 12000] (randn k));
          envelope = (\<lambda>k. exp (- 2 * t k))
      in map (\<lambda>k. noise k * envelope k) [0..<nat samples])"

definition create_crash :: "int \<Rightarrow> (nat \<Rightarrow> real) \<Rightarrow> numpy_error + sound" where
  "create_crash rate randn = normalize_and_convert (6 / 10) (crash_wave rate randn)"

text \<open>\<^verbatim>\<open>_create_ride\<close>: the waveform of lines 218 to 228, and the method.\<close>

definition ride_wave :: "int \<Rightarrow> (nat \<Rightarrow> real) \<Rightarrow> real list" where
  "ride_wave rate randn =
     (let duration = 1;
          samples = py_int (real_of_int rate * duration);
          t = linspace duration samples;
          tone = (\<lambda>k. sin (2 * pi * 800 * t k) + (5 / 10) * sin (2 * pi * 1600 * t k));
          noise = (\<lambda>k. randn k * (3 / 10));
          envelope = (\<lambda>k. exp (- 3 * t k))
      in map (\<lambda>k. (tone k + noise k) * envelope k) [0..<nat samples])"

definition create_ride :: "int \<Rightarrow> (nat \<Rightarrow> real) \<Rightarrow> numpy_error + sound" where
  "create_ride rate randn = normalize_and_convert (65 / 100) (ride_wave rate randn)"

text \<open>
  The property that claim C9 states of a recipe with target peak \<open>target\<close>, raw waveform
  \<open>wave\<close> and returned value \<open>result\<close>: the target lies between 0.5 and 0.9; the
  waveform is normalised to a waveform \<open>w\<close> of the same length whose peak absolute
  amplitude is the target; the result is a Sound whose frames hold, twice, the samples of
  \<open>w\<close> scaled to 16 bits; every scaled sample fits a signed 16-bit integer; and one of
  them has the magnitude of the scaled target, so the buffer is not silent.
\<close>

definition normalized_stereo :: "real \<Rightarrow> real list \<Rightarrow> numpy_error + sound \<Rightarrow> bool" where
  "normalized_stereo target wave result \<longleftrightarrow>
     1 / 2 \<le> target \<and> target \<le> 9 / 10 \<and>
     (\<exists>w. normalize target wave = Inr w
        \<and> length w = length wave
        \<and> Max (set (map abs w)) = target
        \<and> result = Inr (make_sound (map (\<lambda>x. (astype_int16 (x * 32767), astype_int16 (x * 32767))) w))
        \<and> (\<forall>x \<in> set w. sint (astype_int16 (x * 32767)) = py_int (x * 32767))
        \<and> (\<exists>x \<in> set w. \<bar>py_int (x * 32767)\<bar> = \<lfloor>target * 32767\<rfloor> \<and> 0 < \<lfloor>target * 32767\<rfloor>))"

text \<open>Random numbers used where a theorem is exercised on a concrete recipe.\<close>

definition example_randn :: "nat \<Rightarrow> real" where
  "example_randn k = (if even k then 1 else - 1 / 2)"

section \<open>Properties of the packet handler\<close>

subsection \<open>A rule for the fallback loop\<close>

text \<open>
  A property of the state that holds on entry and that every iteration preserves holds
  when the loop returns.
\<close>

lemma loop_invariant:
  assumes "handle_packet_loop h data i s = Inr t"
    and "P s"
    and "\<And>j u j' u'. j < length data \<Longrightarrow> P u \<Longrightarrow> loop_body h data j u = Inr (j', u') \<Longrightarrow> P u'"
  shows "P t"
  using assms
proof (induction h data i s rule: handle_packet_loop.induct)
  case (1 h data i s)
  show ?case
  proof (cases "i < length data")
    case True
    with "1.prems"(1) obtain i' s' where body: "loop_body h data i s = Inr (i', s')"
      and rest: "handle_packet_loop h data i' s' = Inr t"
      by (auto simp: handle_packet_loop.simps [of h data i s] split: sum.splits)
    from True "1.prems"(2) body have "P s'"
      by (rule "1.prems"(3))
    with "1.IH" [OF True body refl rest] "1.prems"(3) show ?thesis
      by blast
  next
    case False
    with "1.prems" show ?thesis
      by (simp add: handle_packet_loop.simps [of h data i s])
  qed
qed

subsection \<open>Termination and normal return\<close>

lemma loop_body_advances:
  assumes "loop_body h data i s = Inr (i', s')" and "i < length data"
  shows "(i' = i + 1 \<or> i' = i + 3) \<and> i' \<le> length data"
  using assms
  by (auto simp: loop_body_def byte_at_def Let_def split: if_splits sum.splits)

lemma dispatch_returns:
  assumes "\<And>a b s. \<exists>s'. note_on_cb h a b s = Inr s'"
    and "\<And>a s. \<exists>s'. note_off_cb h a s = Inr s'"
    and "\<And>f a b s. control_change_cb h = Some f \<Longrightarrow> \<exists>s'. f a b s = Inr s'"
  shows "\<exists>s'. dispatch h typ a b s = Inr s'"
  using assms by (simp add: dispatch_def split: option.splits)

lemma loop_body_returns:
  assumes "\<And>typ a b s. \<exists>s'. dispatch h typ a b s = Inr s'" and "i < length data"
  shows "\<exists>i' s'. loop_body h data i s = Inr (i', s') \<and> (i' = i + 1 \<or> i' = i + 3) \<and> i' \<le> length data"
proof (cases "0x80 \<le> data ! i \<and> data ! i \<le> 0xEF \<and> data ! i AND 0xF0 \<in> {0x80, 0x90, 0xB0} \<and> i + 2 < length data")
  case True
  from assms(1) obtain s' where "dispatch h (data ! i AND 0xF0) (data ! (i + 1)) (data ! (i + 2)) s = Inr s'"
    by blast
  with True assms(2) have "loop_body h data i s = Inr (i + 3, s')"
    by (simp add: loop_body_def byte_at_def Let_def)
  with True show ?thesis
    by simp
next
  case False
  with assms(2) have "loop_body h data i s = Inr (i + 1, s)"
    by (auto simp: loop_body_def byte_at_def Let_def)
  with assms(2) show ?thesis
    by simp
qed

lemma handle_packet_loop_returns:
  assumes "\<And>typ a b s. \<exists>s'. dispatch h typ a b s = Inr s'"
  shows "\<exists>s'. handle_packet_loop h data i s = Inr s'"
  using assms
proof (induction h data i s rule: handle_packet_loop.induct)
  case (1 h data i s)
  show ?case
  proof (cases "i < length data")
    case True
    with "1.prems" obtain i' s' where body: "loop_body h data i s = Inr (i', s')"
      using loop_body_returns [of h i data s] by blast
    from "1.IH" [OF True body refl "1.prems"]
    obtain t where "handle_packet_loop h data i' s' = Inr t"
      by blast
    with True body show ?thesis
      by (simp add: handle_packet_loop.simps [of h data i s])
  next
    case False
    then show ?thesis
      by (simp add: handle_packet_loop.simps [of h data i s])
  qed
qed

lemma handle_mido_message_returns:
  assumes "\<And>a b s. \<exists>s'. note_on_cb h a b s = Inr s'"
    and "\<And>a s. \<exists>s'. note_off_cb h a s = Inr s'"
    and "\<And>f a b s. control_change_cb h = Some f \<Longrightarrow> \<exists>s'. f a b s = Inr s'"
  shows "\<exists>s'. handle_mido_message h msg s = Inr s'"
  using assms by (simp add: handle_mido_message_def split: option.splits)

lemma handle_mido_messages_returns:
  assumes "\<And>msg s. \<exists>s'. handle_mido_message h msg s = Inr s'"
  shows "\<exists>s'. handle_mido_messages h msgs s = (s', None)"
proof (induction msgs arbitrary: s)
  case Nil
  show ?case
    by simp
next
  case (Cons msg msgs)
  from assms obtain s' where "handle_mido_message h msg s = Inr s'"
    by blast
  with Cons.IH [of s'] show ?case
    by simp
qed

text \<open>
  Claim C3. The fallback loop is a total function: its recursion is accepted with the
  measure \<open>length data - i\<close>, which every iteration decreases. If no registered callback
  raises, then for every buffer \<open>handle_packet\<close> returns normally, whether the library
  is installed or not and whatever it answers, and so does the fallback loop from every
  cursor; an iteration entered with the cursor inside the buffer raises no IndexError and
  moves the cursor by 1 or by 3, never past the end of the buffer; and at a byte that is
  not a supported status byte the iteration moves the cursor by 1 and leaves the state as
  it was.
\<close>

theorem handle_packet_returns_normally:
  assumes "\<And>a b s. \<exists>s'. note_on_cb h a b s = Inr s'"
    and "\<And>a s. \<exists>s'. note_off_cb h a s = Inr s'"
    and "\<And>f a b s. control_change_cb h = Some f \<Longrightarrow> \<exists>s'. f a b s = Inr s'"
  shows "(\<exists>s'. handle_packet h mido data s = Inr s')
    \<and> (\<exists>s'. handle_packet_loop h data i s = Inr s')
    \<and> (i < length data \<longrightarrow>
         (\<exists>i' s'. loop_body h data i s = Inr (i', s')
            \<and> (i' = i + 1 \<or> i' = i + 3) \<and> i' \<le> length data))
    \<and> (i < length data
         \<and> \<not> (0x80 \<le> data ! i \<and> data ! i \<le> 0xEF \<and> data ! i AND 0xF0 \<in> {0x80, 0x90, 0xB0})
         \<longrightarrow> loop_body h data i s = Inr (i + 1, s))"
proof -
  have d: "\<exists>s'. dispatch h ty a b s = Inr s'" for ty a b s
    using assms by (rule dispatch_returns)
  have loop: "\<exists>s'. handle_packet_loop h data j u = Inr s'" for j u
    using d by (rule handle_packet_loop_returns)
  have m: "\<exists>s'. handle_mido_message h msg s = Inr s'" for msg s
    using assms by (rule handle_mido_message_returns)
  have ms: "\<exists>s'. handle_mido_messages h msgs s = (s', None)" for msgs
    using m by (rule handle_mido_messages_returns)
  have "\<exists>s'. handle_packet h mido data s = Inr s'"
  proof (cases mido)
    case None
    with loop [of 0 s] show ?thesis
      by (simp add: handle_packet_def)
  next
    case (Some parse_all)
    show ?thesis
    proof (cases "parse_all data")
      case (Inl e)
      with Some loop [of 0 s] show ?thesis
        by (simp add: handle_packet_def)
    next
      case (Inr msgs)
      from ms [of msgs] obtain s' where "handle_mido_messages h msgs s = (s', None)"
        by blast
      with Some Inr show ?thesis
        by (simp add: handle_packet_def)
    qed
  qed
  moreover have "\<exists>i' s'. loop_body h data i s = Inr (i', s')
            \<and> (i' = i + 1 \<or> i' = i + 3) \<and> i' \<le> length data" if "i < length data"
    using d that by (rule loop_body_returns)
  moreover have "loop_body h data i s = Inr (i + 1, s)"
    if "i < length data
         \<and> \<not> (0x80 \<le> data ! i \<and> data ! i \<le> 0xEF \<and> data ! i AND 0xF0 \<in> {0x80, 0x90, 0xB0})"
    using that by (auto simp: loop_body_def byte_at_def Let_def)
  ultimately show ?thesis
    using loop [of i s] by blast
qed

theorem handle_packet_returns_normally_witness:
  "(\<exists>s'. handle_packet recording_handler None [0xF8, 0x40, 0x90, 0x24, 0x64, 0xC0] [] = Inr s')
   \<and> (\<exists>s'. handle_packet_loop recording_handler [0xF8, 0x40, 0x90, 0x24, 0x64, 0xC0] 2 [] = Inr s')
   \<and> (\<exists>i' s'. loop_body recording_handler [0xF8, 0x40, 0x90, 0x24, 0x64, 0xC0] 2 [] = Inr (i', s')
          \<and> (i' = 2 + 1 \<or> i' = 2 + 3) \<and> i' \<le> length [0xF8, 0x40, 0x90, 0x24, 0x64, 0xC0 :: byte])
   \<and> loop_body recording_handler [0xF8, 0x40, 0x90, 0x24, 0x64, 0xC0] 0 [] = Inr (0 + 1, [])"
proof -
  have on: "\<exists>s'. note_on_cb recording_handler a b s = Inr s'" for a b s
    by (simp add: recording_handler_def)
  have off: "\<exists>s'. note_off_cb recording_handler a s = Inr s'" for a s
    by (simp add: recording_handler_def)
  have cc: "\<exists>s'. f a b s = Inr s'" if "control_change_cb recording_handler = Some f" for f a b s
    using that by (auto simp: recording_handler_def)
  note inst = handle_packet_returns_normally
    [where h = recording_handler and data = "[0xF8, 0x40, 0x90, 0x24, 0x64, 0xC0]" and s = "[]"
      and mido = None]
  have "128 \<le> (0xF8 :: byte)" and "\<not> (0xF8 :: byte) \<le> 0xEF"
    by simp_all
  with inst [of 2, OF on off] inst [of 0, OF on off] cc show ?thesis
    by simp
qed

subsection \<open>Incomplete trailing messages\<close>

lemma loop_body_short:
  assumes "i < length data" and "length data \<le> i + 2"
  shows "loop_body h data i s = Inr (i + 1, s)"
  using assms by (simp add: loop_body_def byte_at_def Let_def)

lemma handle_packet_loop_short:
  "length data \<le> i + 2 \<Longrightarrow> handle_packet_loop h data i s = Inr s"
proof (induction h data i s rule: handle_packet_loop.induct)
  case (1 h data i s)
  show ?case
  proof (cases "i < length data")
    case True
    with "1.prems" have body: "loop_body h data i s = Inr (i + 1, s)"
      by (simp add: loop_body_short)
    from "1.prems" have "length data \<le> (i + 1) + 2"
      by simp
    with "1.IH" [OF True body refl] have "handle_packet_loop h data (i + 1) s = Inr s"
      by simp
    with True body show ?thesis
      by (simp add: handle_packet_loop.simps [of h data i s])
  next
    case False
    then show ?thesis
      by (simp add: handle_packet_loop.simps [of h data i s])
  qed
qed

lemma handle_mido_messages_other:
  assumes "\<forall>m \<in> set msgs. msg_type m \<notin> {''note_on'', ''note_off'', ''control_change''}"
  shows "handle_mido_messages h msgs s = (s, None)"
  using assms by (induction msgs) (simp_all add: handle_mido_message_def)

text \<open>
  Claim C4. Once fewer than three bytes remain from the cursor, the fallback loop invokes
  no callback whatever the remaining bytes are, with any handler: it returns the state it
  was entered with. So on the fallback path, taken where the library is not installed or
  where it raises, a buffer of fewer than three bytes produces no event: the empty
  buffer, a buffer of one byte (a status byte or not) and the truncated NoteOn
  \<open>[0x90, 0x24]\<close> leave the state unchanged, and the log of the recording handler stays
  empty. On the path through the library no callback is invoked either, for any buffer
  for which the library returns no message of type note_on, note_off or control_change.
\<close>

theorem incomplete_message_dropped:
  "(length data \<le> i + 2 \<longrightarrow> handle_packet_loop h data i s = Inr s)
   \<and> (length data \<le> 2 \<longrightarrow> handle_packet h None data s = Inr s)
   \<and> (length data \<le> 2 \<and> parse_all data = Inl e \<longrightarrow>
        handle_packet h (Some parse_all) data s = Inr s)
   \<and> (parse_all data = Inr msgs
        \<and> (\<forall>m \<in> set msgs. msg_type m \<notin> {''note_on'', ''note_off'', ''control_change''}) \<longrightarrow>
        handle_packet h (Some parse_all) data s = Inr s)
   \<and> handle_packet h None [] s = Inr s
   \<and> handle_packet h None [status] s = Inr s
   \<and> handle_packet h None [0x90, 0x24] s = Inr s
   \<and> handle_packet recording_handler None [0x90, 0x24] [] = Inr []"
  by (simp add: handle_packet_def handle_packet_loop_short handle_mido_messages_other)

theorem incomplete_message_dropped_witness:
  "length [0xB3, 0x07 :: byte] \<le> 0 + 2
   \<and> handle_packet_loop recording_handler [0xB3, 0x07] 0 [] = Inr []
   \<and> handle_packet recording_handler None [0xB3, 0x07] [] = Inr []
   \<and> handle_packet recording_handler (Some (\<lambda>d. Inl MidoRaised)) [0xB3, 0x07] [] = Inr []
   \<and> handle_packet recording_handler
        (Some (\<lambda>d. Inr [\<lparr>msg_type = ''clock'', msg_note = 0, msg_velocity = 0,
                           msg_control = 0, msg_value = 0\<rparr>])) [0xF8] [] = Inr []"
  using incomplete_message_dropped [of "[0xB3, 0x07]" 0 recording_handler "[]"
      "\<lambda>d. Inl MidoRaised" MidoRaised "[]" "0x80"]
    incomplete_message_dropped [of "[0xF8]" 0 recording_handler "[]"
      "\<lambda>d. Inr [\<lparr>msg_type = ''clock'', msg_note = 0, msg_velocity = 0,
                    msg_control = 0, msg_value = 0\<rparr>]" MidoRaised
      "[\<lparr>msg_type = ''clock'', msg_note = 0, msg_velocity = 0, msg_control = 0, msg_value = 0\<rparr>]"
      "0x80"]
  by simp

subsection \<open>The arguments of the callbacks\<close>

text \<open>
  What an iteration of the fallback loop adds to the log of the recording handler: nothing,
  or one call, made at a supported status byte that has two bytes after it, with these
  two bytes as they are.
\<close>

lemma recording_body_cases:
  assumes "loop_body recording_handler data j u = Inr (j', u')" and "j < length data"
  shows "u' = u \<or>
    (j + 2 < length data \<and> 0x80 \<le> data ! j \<and> data ! j \<le> 0xEF
      \<and> data ! j AND 0xF0 \<in> {0x80, 0x90, 0xB0} \<and>
      (u' = u @ [Note_on (uint (data ! (j + 1))) (uint (data ! (j + 2)))] \<and> 0 < data ! (j + 2)
       \<or> u' = u @ [Note_off (uint (data ! (j + 1)))]
       \<or> u' = u @ [Control_change (uint (data ! (j + 1))) (uint (data ! (j + 2)))]))"
  using assms
  by (auto simp: loop_body_def byte_at_def dispatch_def recording_handler_def Let_def
      split: if_splits)

lemma fallback_calls_origin:
  assumes "handle_packet_loop recording_handler data i u = Inr calls"
  shows "\<forall>c \<in> set calls. c \<in> set u \<or>
           (\<exists>k. k + 2 < length data \<and> 0x80 \<le> data ! k \<and> data ! k \<le> 0xEF
              \<and> data ! k AND 0xF0 \<in> {0x80, 0x90, 0xB0}
              \<and> c \<in> {Note_on (uint (data ! (k + 1))) (uint (data ! (k + 2))),
                      Note_off (uint (data ! (k + 1))),
                      Control_change (uint (data ! (k + 1))) (uint (data ! (k + 2)))})"
    (is "?P calls")
  using assms
proof (rule loop_invariant)
  show "?P u"
    by simp
next
  fix j v j' v'
  assume j: "j < length data" and v: "?P v"
    and body: "loop_body recording_handler data j v = Inr (j', v')"
  from recording_body_cases [OF body j] show "?P v'"
  proof (elim disjE conjE)
    assume "v' = v"
    with v show ?thesis
      by simp
  next
    assume "j + 2 < length data" "0x80 \<le> data ! j" "data ! j \<le> 0xEF"
      "data ! j AND 0xF0 \<in> {0x80, 0x90, 0xB0}"
      and "v' = v @ [Note_on (uint (data ! (j + 1))) (uint (data ! (j + 2)))]"
    with v show ?thesis
      by auto
  next
    assume "j + 2 < length data" "0x80 \<le> data ! j" "data ! j \<le> 0xEF"
      "data ! j AND 0xF0 \<in> {0x80, 0x90, 0xB0}"
      and "v' = v @ [Note_off (uint (data ! (j + 1)))]"
    with v show ?thesis
      by auto
  next
    assume "j + 2 < length data" "0x80 \<le> data ! j" "data ! j \<le> 0xEF"
      "data ! j AND 0xF0 \<in> {0x80, 0x90, 0xB0}"
      and "v' = v @ [Control_change (uint (data ! (j + 1))) (uint (data ! (j + 2)))]"
    with v show ?thesis
      by auto
  qed
qed

text \<open>What the loop over the library's messages adds to the log of the recording handler.\<close>

lemma recording_mido_messages:
  "\<exists>new. handle_mido_messages recording_handler msgs u = (u @ new, None)
     \<and> (\<forall>c \<in> set new. \<exists>m \<in> set msgs.
           c \<in> {Note_on (msg_note m) (msg_velocity m), Note_off (msg_note m),
                 Control_change (msg_control m) (msg_value m)})
     \<and> (\<forall>n v. Note_on n v \<in> set new \<longrightarrow> 0 < v)"
proof (induction msgs arbitrary: u)
  case Nil
  show ?case
    by simp
next
  case (Cons msg msgs)
  have "\<exists>one. handle_mido_message recording_handler msg u = Inr (u @ one)
      \<and> (\<forall>c \<in> set one. c \<in> {Note_on (msg_note msg) (msg_velocity msg), Note_off (msg_note msg),
                 Control_change (msg_control msg) (msg_value msg)})
      \<and> (\<forall>n v. Note_on n v \<in> set one \<longrightarrow> 0 < v)"
    by (simp add: handle_mido_message_def recording_handler_def)
  then obtain one where one: "handle_mido_message recording_handler msg u = Inr (u @ one)"
    "\<forall>c \<in> set one. c \<in> {Note_on (msg_note msg) (msg_velocity msg), Note_off (msg_note msg),
                 Control_change (msg_control msg) (msg_value msg)}"
    "\<forall>n v. Note_on n v \<in> set one \<longrightarrow> 0 < v"
    by blast
  from Cons.IH [of "u @ one"] obtain new
    where new: "handle_mido_messages recording_handler msgs (u @ one) = ((u @ one) @ new, None)"
      "\<forall>c \<in> set new. \<exists>m \<in> set msgs.
           c \<in> {Note_on (msg_note m) (msg_velocity m), Note_off (msg_note m),
                 Control_change (msg_control m) (msg_value m)}"
      "\<forall>n v. Note_on n v \<in> set new \<longrightarrow> 0 < v"
    by blast
  have "handle_mido_messages recording_handler (msg # msgs) u = (u @ (one @ new), None)"
    using one(1) new(1) by simp
  moreover have "\<forall>c \<in> set (one @ new). \<exists>m \<in> set (msg # msgs).
           c \<in> {Note_on (msg_note m) (msg_velocity m), Note_off (msg_note m),
                 Control_change (msg_control m) (msg_value m)}"
    using one(2) new(2) by auto
  moreover have "\<forall>n v. Note_on n v \<in> set (one @ new) \<longrightarrow> 0 < v"
    using one(3) new(3) by auto
  ultimately show ?case
    by blast
qed

text \<open>
  Claim C1, as the code has it. Where the library is not installed, the parser passes the
  two bytes after the status byte to the callback as they are, with no mask: the buffer
  \<open>[0x90, 0xFF, 0xFF]\<close> invokes \<open>note_on_cb\<close> with note 255 and velocity 255.
\<close>

theorem unmasked_data_byte_counterexample:
  "handle_packet recording_handler None [0x90, 0xFF, 0xFF] [] = Inr [Note_on 255 255]
   \<and> \<not> (255 :: int) \<le> 127"
  by (simp add: handle_packet_def handle_packet_loop.simps loop_body_def byte_at_def
      dispatch_def recording_handler_def)

text \<open>
  Claim C1, amended. No path of \<open>handle_packet\<close> masks an argument. On the fallback
  path, taken where the library is not installed or where it raises, every callback
  invocation is made at a supported status byte that has two bytes after it, and its
  arguments are these two bytes unchanged (the first of them for \<open>note_off_cb\<close>); so
  every argument lies in 0..255, and it lies in 0..127 exactly when its byte has the high
  bit clear. On the path through the library every callback invocation is made for one
  of the messages that the library returned, and its arguments are the attributes of
  that message unchanged.
\<close>

theorem callback_args_are_raw_bytes:
  assumes "handle_packet recording_handler mido data [] = Inr calls" and "c \<in> set calls"
  shows "(mido = None \<or> (\<exists>parse_all e. mido = Some parse_all \<and> parse_all data = Inl e) \<longrightarrow>
           (\<exists>k. k + 2 < length data \<and> 0x80 \<le> data ! k \<and> data ! k \<le> 0xEF
              \<and> data ! k AND 0xF0 \<in> {0x80, 0x90, 0xB0}
              \<and> c \<in> {Note_on (uint (data ! (k + 1))) (uint (data ! (k + 2))),
                      Note_off (uint (data ! (k + 1))),
                      Control_change (uint (data ! (k + 1))) (uint (data ! (k + 2)))}
              \<and> (uint (data ! (k + 1)) \<le> 127 \<longleftrightarrow> data ! (k + 1) < 0x80)
              \<and> (uint (data ! (k + 2)) \<le> 127 \<longleftrightarrow> data ! (k + 2) < 0x80))
           \<and> (\<forall>x \<in> set (call_args c). 0 \<le> x \<and> x \<le> 255))
    \<and> (\<forall>parse_all msgs. mido = Some parse_all \<and> parse_all data = Inr msgs \<longrightarrow>
           (\<exists>m \<in> set msgs.
              c \<in> {Note_on (msg_note m) (msg_velocity m), Note_off (msg_note m),
                    Control_change (msg_control m) (msg_value m)}))"
proof (intro conjI impI allI)
  assume "mido = None \<or> (\<exists>parse_all e. mido = Some parse_all \<and> parse_all data = Inl e)"
  then have "handle_packet recording_handler mido data [] = handle_packet_loop recording_handler data 0 []"
    by (auto simp: handle_packet_def)
  with assms obtain k where k: "k + 2 < length data" "0x80 \<le> data ! k" "data ! k \<le> 0xEF"
    "data ! k AND 0xF0 \<in> {0x80, 0x90, 0xB0}"
    "c \<in> {Note_on (uint (data ! (k + 1))) (uint (data ! (k + 2))),
          Note_off (uint (data ! (k + 1))),
          Control_change (uint (data ! (k + 1))) (uint (data ! (k + 2)))}"
    using fallback_calls_origin [of data 0 "[]" calls] by auto
  have high: "uint b \<le> 127 \<longleftrightarrow> b < 0x80" for b :: byte
    by (auto simp: word_less_def)
  from k high
  show "\<exists>k. k + 2 < length data \<and> 0x80 \<le> data ! k \<and> data ! k \<le> 0xEF
              \<and> data ! k AND 0xF0 \<in> {0x80, 0x90, 0xB0}
              \<and> c \<in> {Note_on (uint (data ! (k + 1))) (uint (data ! (k + 2))),
                      Note_off (uint (data ! (k + 1))),
                      Control_change (uint (data ! (k + 1))) (uint (data ! (k + 2)))}
              \<and> (uint (data ! (k + 1)) \<le> 127 \<longleftrightarrow> data ! (k + 1) < 0x80)
              \<and> (uint (data ! (k + 2)) \<le> 127 \<longleftrightarrow> data ! (k + 2) < 0x80)"
    by blast
  have bound: "0 \<le> uint b \<and> uint b \<le> 255" for b :: byte
    using uint_bounded [of b] by simp
  from k(5) bound [of "data ! (k + 1)"] bound [of "data ! (k + 2)"]
  show "\<forall>x \<in> set (call_args c). 0 \<le> x \<and> x \<le> 255"
    by auto
next
  fix parse_all msgs
  assume lib: "mido = Some parse_all \<and> parse_all data = Inr msgs"
  from recording_mido_messages [of msgs "[]"] obtain new
    where new: "handle_mido_messages recording_handler msgs [] = ([] @ new, None)"
      "\<forall>c \<in> set new. \<exists>m \<in> set msgs.
           c \<in> {Note_on (msg_note m) (msg_velocity m), Note_off (msg_note m),
                 Control_change (msg_control m) (msg_value m)}"
    by blast
  with lib assms(1) have "calls = new"
    by (simp add: handle_packet_def)
  with new(2) assms(2)
  show "\<exists>m \<in> set msgs.
              c \<in> {Note_on (msg_note m) (msg_velocity m), Note_off (msg_note m),
                    Control_change (msg_control m) (msg_value m)}"
    by blast
qed

theorem callback_args_are_raw_bytes_witness:
  "handle_packet recording_handler None [0x90, 0x24, 0xFF] [] = Inr [Note_on 36 255]
   \<and> (\<exists>k. k + 2 < length [0x90, 0x24, 0xFF :: byte]
          \<and> Note_on 36 255 \<in>
              {Note_on (uint ([0x90, 0x24, 0xFF :: byte] ! (k + 1)))
                 (uint ([0x90, 0x24, 0xFF :: byte] ! (k + 2))),
               Note_off (uint ([0x90, 0x24, 0xFF :: byte] ! (k + 1))),
               Control_change (uint ([0x90, 0x24, 0xFF :: byte] ! (k + 1)))
                 (uint ([0x90, 0x24, 0xFF :: byte] ! (k + 2)))})
   \<and> (0 :: int) \<le> 255 \<and> (255 :: int) \<le> 255
   \<and> handle_packet recording_handler
        (Some (\<lambda>d. Inr [\<lparr>msg_type = ''note_on'', msg_note = 60, msg_velocity = 200,
                           msg_control = 0, msg_value = 0\<rparr>])) [0x90, 0x24, 0xFF] []
       = Inr [Note_on 60 200]"
proof -
  have run: "handle_packet recording_handler None [0x90, 0x24, 0xFF] [] = Inr [Note_on 36 255]"
    by (simp add: handle_packet_def handle_packet_loop.simps loop_body_def byte_at_def
        dispatch_def recording_handler_def)
  have lib: "handle_packet recording_handler
        (Some (\<lambda>d. Inr [\<lparr>msg_type = ''note_on'', msg_note = 60, msg_velocity = 200,
                           msg_control = 0, msg_value = 0\<rparr>])) [0x90, 0x24, 0xFF] []
       = Inr [Note_on 60 200]"
    by (simp add: handle_packet_def handle_mido_message_def recording_handler_def)
  have "Note_on 36 255 \<in> set [Note_on 36 255]" and "Note_on 60 200 \<in> set [Note_on 60 200]"
    by simp_all
  from callback_args_are_raw_bytes [OF run this(1)] callback_args_are_raw_bytes [OF lib this(2)]
    run lib
  show ?thesis
    by simp
qed

subsection \<open>NoteOn with velocity 0\<close>






section \<open>Properties of the audio engine\<close>

subsection \<open>What the two methods leave unchanged\<close>

lemma note_map_note_on: "note_map (note_on eng note velocity played) = note_map eng"
  by (simp add: note_on_def Let_def split: option.splits)

lemma note_map_note_off: "note_map (note_off eng note fade_raises) = note_map eng"
  by (simp add: note_off_def Let_def split: option.splits)

lemma dom_drum_samples_note_on:
  "dom (drum_samples (note_on eng note velocity played)) = dom (drum_samples eng)"
  by (auto simp: note_on_def Let_def split: option.splits if_splits)

lemma drum_samples_note_off:
  "drum_samples (note_off eng note fade_raises) = drum_samples eng"
  by (simp add: note_off_def Let_def split: option.splits)

lemma run_calls_snoc: "run_calls eng (calls @ [c]) = run_call (run_calls eng calls) c"
  by (simp add: run_calls_def)

lemma note_map_run_calls: "note_map (run_calls eng calls) = note_map eng"
proof (induction calls rule: rev_induct)
  case Nil
  show ?case
    by (simp add: run_calls_def)
next
  case (snoc c calls)
  then show ?case
    by (cases c) (simp_all add: run_calls_snoc note_map_note_on note_map_note_off)
qed

lemma dom_drum_samples_run_calls:
  "dom (drum_samples (run_calls eng calls)) = dom (drum_samples eng)"
proof (induction calls rule: rev_induct)
  case Nil
  show ?case
    by (simp add: run_calls_def)
next
  case (snoc c calls)
  then show ?case
    by (cases c) (simp_all add: run_calls_snoc dom_drum_samples_note_on drum_samples_note_off)
qed

subsection \<open>The engine after construction and any sequence of calls\<close>

lemma drum_type_run_calls: "drum_type (run_calls eng calls) note = drum_type eng note"
  by (simp add: drum_type_def note_map_run_calls)

lemma drum_type_init_cases:
  "drum_type (AudioEngine_init syn rate) note \<in>
     {''kick'', ''snare'', ''hihat_closed'', ''hihat_open'', ''tom_low'', ''tom_mid'',
      ''tom_high'', ''crash'', ''ride''}"
  by (simp add: drum_type_def AudioEngine_init_def)

lemma dom_generate_drum_samples:
  "dom (generate_drum_samples syn) =
     {''kick'', ''snare'', ''hihat_closed'', ''hihat_open'', ''tom_low'', ''tom_mid'',
      ''tom_high'', ''crash'', ''ride''}"
  by (auto simp: generate_drum_samples_def)

lemma reachable_sound:
  "\<exists>sound. drum_samples (run_calls (AudioEngine_init syn rate) calls)
              (drum_type (run_calls (AudioEngine_init syn rate) calls) note) = Some sound"
proof -
  have "drum_type (AudioEngine_init syn rate) note \<in> dom (generate_drum_samples syn)"
    unfolding dom_generate_drum_samples by (rule drum_type_init_cases)
  also have "dom (generate_drum_samples syn)
      = dom (drum_samples (run_calls (AudioEngine_init syn rate) calls))"
    by (simp add: dom_drum_samples_run_calls AudioEngine_init_def)
  finally show ?thesis
    by (auto simp: drum_type_run_calls)
qed

lemma active_note_on:
  "active (note_on eng note velocity played) =
     (case drum_samples eng (drum_type eng note) of
        None \<Rightarrow> active eng
      | Some sound \<Rightarrow>
          (case played of Some ch \<Rightarrow> (active eng)(note \<mapsto> ch) | None \<Rightarrow> active eng))"
  by (simp add: note_on_def Let_def split: option.splits)

text \<open>The gain is the only field of a Sound that \<open>set_volume\<close> writes.\<close>

lemma samples_set_volume: "samples (set_volume sound v) = samples sound"
  by (simp add: set_volume_def)

lemma active_note_on_reachable:
  "active (note_on (run_calls (AudioEngine_init syn rate) calls) note velocity (Some ch)) =
     (active (run_calls (AudioEngine_init syn rate) calls))(note \<mapsto> ch)"
  using reachable_sound [of syn rate calls "note"] by (auto simp: active_note_on)


subsection \<open>The table of active voices\<close>

lemma active_note_off:
  "active (note_off eng note fade_raises) = (active eng)(note := None)"
  by (simp add: note_off_def Let_def split: option.splits)

lemma tracked_handle_origin:
  assumes "active (run_calls eng calls) n = Some c"
  shows "active eng n = Some c \<or> (\<exists>v. Call_note_on n v (Some c) \<in> set calls)"
  using assms
proof (induction calls arbitrary: c rule: rev_induct)
  case Nil
  then show ?case
    by (simp add: run_calls_def)
next
  case (snoc x calls)
  show ?case
  proof (cases x)
    case (Call_note_on m v played)
    show ?thesis
    proof (cases "m = n \<and> played = Some c")
      case True
      with Call_note_on show ?thesis
        by auto
    next
      case False
      with snoc.prems Call_note_on have "active (run_calls eng calls) n = Some c"
        by (auto simp: run_calls_snoc active_note_on split: option.splits if_splits)
      with snoc.IH show ?thesis
        by auto
    qed
  next
    case (Call_note_off m r)
    with snoc.prems have "active (run_calls eng calls) n = Some c"
      by (auto simp: run_calls_snoc active_note_off split: if_splits)
    with snoc.IH show ?thesis
      by auto
  qed
qed

text \<open>
  Claim C5. In every state the engine reaches from its construction by calls of
  \<open>note_on\<close> and \<open>note_off\<close>: a \<open>note_on\<close> that obtains a channel stores it under
  the note and changes no other entry, so an earlier handle of that note is replaced
  and the set of tracked notes does not grow; the table holds at most one handle for a
  note; and a tracked handle is one that a \<open>note_on\<close> of that note obtained.
\<close>

theorem active_tracks_newest_handle:
  "active (note_on (run_calls (AudioEngine_init syn rate) calls) note velocity (Some ch))
     = (active (run_calls (AudioEngine_init syn rate) calls))(note \<mapsto> ch)
   \<and> (note \<in> dom (active (run_calls (AudioEngine_init syn rate) calls)) \<longrightarrow>
        dom (active (note_on (run_calls (AudioEngine_init syn rate) calls) note velocity (Some ch)))
          = dom (active (run_calls (AudioEngine_init syn rate) calls)))
   \<and> card {c. active (run_calls (AudioEngine_init syn rate) calls) n = Some c} \<le> 1
   \<and> (active (run_calls (AudioEngine_init syn rate) calls) n = Some c \<longrightarrow>
        (\<exists>v. Call_note_on n v (Some c) \<in> set calls))"
proof -
  let ?E = "run_calls (AudioEngine_init syn rate) calls"
  have upd: "active (note_on ?E note velocity (Some ch)) = (active ?E)(note \<mapsto> ch)"
    by (rule active_note_on_reachable)
  have same: "dom (active (note_on ?E note velocity (Some ch))) = dom (active ?E)"
    if "note \<in> dom (active ?E)"
    using that by (auto simp: upd)
  have one: "card {c. active ?E n = Some c} \<le> 1"
    by (cases "active ?E n") simp_all
  have origin: "\<exists>v. Call_note_on n v (Some c) \<in> set calls" if "active ?E n = Some c"
    using tracked_handle_origin [OF that] by (simp add: AudioEngine_init_def)
  from upd same one origin show ?thesis
    by blast
qed

theorem active_tracks_newest_handle_witness:
  "active (note_on (run_calls (AudioEngine_init example_synthesis 44100)
              [Call_note_on 36 100 (Some 3), Call_note_on 38 90 (Some 5)]) 36 127 (Some 7))
     = [36 \<mapsto> 7, 38 \<mapsto> 5]
   \<and> dom (active (note_on (run_calls (AudioEngine_init example_synthesis 44100)
              [Call_note_on 36 100 (Some 3), Call_note_on 38 90 (Some 5)]) 36 127 (Some 7)))
       = {36, 38}
   \<and> (\<exists>v. Call_note_on 38 v (Some 5)
          \<in> set [Call_note_on 36 100 (Some 3), Call_note_on 38 90 (Some 5)])"
proof -
  have run: "active (run_calls (AudioEngine_init example_synthesis 44100)
      [Call_note_on 36 100 (Some 3), Call_note_on 38 90 (Some 5)]) = [36 \<mapsto> 3, 38 \<mapsto> 5]"
    by (simp add: run_calls_def note_on_def drum_type_def AudioEngine_init_def
        generate_drum_samples_def Let_def)
  show ?thesis
    using active_tracks_newest_handle [of example_synthesis 44100
        "[Call_note_on 36 100 (Some 3), Call_note_on 38 90 (Some 5)]" 36 127 7 38 5]
    by (auto simp: run)
qed


subsection \<open>Releasing a note\<close>

text \<open>
  Claim C6. When a handle is tracked for the note, \<open>note_off\<close> removes the entry and
  asks the mixer to fade that channel out over 100 ms (a failure of the fade request is
  dropped, and the entry is removed all the same). When none is tracked, \<open>note_off\<close>
  returns the engine as it was. So after a \<open>note_on\<close> and a \<open>note_off\<close> of note 36, a
  second \<open>note_off\<close> of note 36 changes nothing.
\<close>

theorem note_off_removes_or_noop:
  "(active eng note = Some ch \<longrightarrow>
      note_off eng note False =
        eng\<lparr>active := (active eng)(note := None),
            mixer_calls := mixer_calls eng @ [Fadeout ch 100]\<rparr>
      \<and> note_off eng note True = eng\<lparr>active := (active eng)(note := None)\<rparr>)
   \<and> (active eng note = None \<longrightarrow> note_off eng note fade_raises = eng)
   \<and> active (note_off eng note fade_raises) note = None
   \<and> note_off (note_off (note_on eng 36 127 played) 36 fade_raises) 36 fade_raises'
       = note_off (note_on eng 36 127 played) 36 fade_raises"
proof -
  have absent: "note_off e m r = e" if "active e m = None" for e m r
  proof -
    from that have "(active e)(m := None) = active e"
      by (simp add: fun_upd_idem_iff)
    with that show ?thesis
      by (simp add: note_off_def)
  qed
  have gone: "active (note_off e m r) m = None" for e m r
    by (simp add: active_note_off)
  have present: "note_off eng note False =
        eng\<lparr>active := (active eng)(note := None),
            mixer_calls := mixer_calls eng @ [Fadeout ch 100]\<rparr>
      \<and> note_off eng note True = eng\<lparr>active := (active eng)(note := None)\<rparr>"
    if "active eng note = Some ch"
    using that by (simp add: note_off_def)
  from absent [OF gone] absent gone present show ?thesis
    by blast
qed

theorem note_off_removes_or_noop_witness:
  "active (note_on (AudioEngine_init example_synthesis 44100) 36 127 (Some 4)) 36 = Some 4
   \<and> mixer_calls (note_off (note_on (AudioEngine_init example_synthesis 44100) 36 127 (Some 4)) 36 False)
       = [Play \<lparr>samples = [(29490, 29490), (-3, -3)], volume = 1\<rparr>, Fadeout 4 100]
   \<and> active (AudioEngine_init example_synthesis 44100) 36 = None
   \<and> note_off (AudioEngine_init example_synthesis 44100) 36 False
       = AudioEngine_init example_synthesis 44100"
proof -
  have on: "active (note_on (AudioEngine_init example_synthesis 44100) 36 127 (Some 4)) 36 = Some 4"
    by (simp add: note_on_def drum_type_def AudioEngine_init_def generate_drum_samples_def Let_def)
  have calls: "mixer_calls (note_on (AudioEngine_init example_synthesis 44100) 36 127 (Some 4))
      = [Play \<lparr>samples = [(29490, 29490), (-3, -3)], volume = 1\<rparr>]"
    by (simp add: note_on_def set_volume_def drum_type_def AudioEngine_init_def
        generate_drum_samples_def make_sound_def example_synthesis_def Let_def)
  have off: "active (AudioEngine_init example_synthesis 44100) 36 = None"
    by (simp add: AudioEngine_init_def)
  show ?thesis
    using on calls off
      note_off_removes_or_noop [of "note_on (AudioEngine_init example_synthesis 44100) 36 127 (Some 4)"
        36 4 False]
      note_off_removes_or_noop [of "AudioEngine_init example_synthesis 44100" 36 4 False]
    by simp
qed

subsection \<open>A trigger that obtains no channel\<close>

text \<open>
  Claim C10. When \<^verbatim>\<open>sound.play()\<close> returns no channel, \<open>note_on\<close> leaves the table
  of active voices as it was, so a handle tracked for the note stays tracked; and in
  every state the engine reaches, a later \<open>note_on\<close> that obtains a channel tracks it.
\<close>

theorem note_on_without_channel_keeps_active:
  "active (note_on eng note velocity None) = active eng
   \<and> (active eng note = Some ch \<longrightarrow> active (note_on eng note velocity None) note = Some ch)
   \<and> active (note_on (note_on (run_calls (AudioEngine_init syn rate) calls) note velocity None)
        note' velocity' (Some ch'))
       = (active (run_calls (AudioEngine_init syn rate) calls))(note' \<mapsto> ch')"
proof -
  have keep: "active (note_on e m v None) = active e" for e m v
    by (simp add: active_note_on split: option.splits)
  have "note_on (run_calls (AudioEngine_init syn rate) calls) note velocity None
      = run_calls (AudioEngine_init syn rate) (calls @ [Call_note_on note velocity None])"
    by (simp add: run_calls_snoc)
  then have "active (note_on (note_on (run_calls (AudioEngine_init syn rate) calls) note velocity None)
        note' velocity' (Some ch'))
       = (active (note_on (run_calls (AudioEngine_init syn rate) calls) note velocity None))(note' \<mapsto> ch')"
    by (simp only: active_note_on_reachable)
  with keep show ?thesis
    by simp
qed

theorem note_on_without_channel_keeps_active_witness:
  "active (note_on (AudioEngine_init example_synthesis 44100) 36 100 (Some 6)) 36 = Some 6
   \<and> active (note_on (note_on (AudioEngine_init example_synthesis 44100) 36 100 (Some 6)) 36 90 None) 36
       = Some 6"
proof -
  have on: "active (note_on (AudioEngine_init example_synthesis 44100) 36 100 (Some 6)) 36 = Some 6"
    by (simp add: note_on_def drum_type_def AudioEngine_init_def generate_drum_samples_def Let_def)
  show ?thesis
    using on note_on_without_channel_keeps_active
      [of "note_on (AudioEngine_init example_synthesis 44100) 36 100 (Some 6)" 36 90 6]
    by simp
qed


subsection \<open>Unmapped and mapped notes\<close>

text \<open>
  Claim C7. In every state the engine reaches, a note outside the seventeen mapped
  notes resolves to the drum type snare (note 127 is such a note), and the mapped notes
  resolve to the drum types of the note map. For every note, mapped or not, the bank
  holds a Sound under the resolved drum type, and \<open>note_on\<close> sets the gain of that
  Sound and plays that Sound; it does not raise.
\<close>

theorem note_on_plays_resolved_drum_type:
  "(note \<notin> {35, 36, 38, 40, 41, 42, 43, 44, 45, 46, 47, 48, 49, 50, 51, 52, 53} \<longrightarrow>
      drum_type (run_calls (AudioEngine_init syn rate) calls) note = ''snare'')
   \<and> drum_type (run_calls (AudioEngine_init syn rate) calls) 127 = ''snare''
   \<and> map (drum_type (run_calls (AudioEngine_init syn rate) calls))
         [35, 36, 38, 40, 41, 42, 43, 44, 45, 46, 47, 48, 49, 50, 51, 52, 53]
       = [''kick'', ''kick'', ''snare'', ''snare'', ''tom_low'', ''hihat_closed'', ''tom_low'',
          ''hihat_closed'', ''tom_mid'', ''hihat_open'', ''tom_low'', ''tom_mid'', ''crash'',
          ''tom_high'', ''ride'', ''crash'', ''ride'']
   \<and> (\<exists>sound.
         drum_samples (run_calls (AudioEngine_init syn rate) calls)
           (drum_type (run_calls (AudioEngine_init syn rate) calls) note) = Some sound
         \<and> drum_samples (note_on (run_calls (AudioEngine_init syn rate) calls) note velocity played)
              (drum_type (run_calls (AudioEngine_init syn rate) calls) note)
             = Some (set_volume sound (real_of_int velocity / 127))
         \<and> mixer_calls (note_on (run_calls (AudioEngine_init syn rate) calls) note velocity played)
             = mixer_calls (run_calls (AudioEngine_init syn rate) calls)
                 @ [Play (set_volume sound (real_of_int velocity / 127))])"
proof -
  let ?E = "run_calls (AudioEngine_init syn rate) calls"
  have unmapped: "drum_type ?E m = ''snare''"
    if "m \<notin> {35, 36, 38, 40, 41, 42, 43, 44, 45, 46, 47, 48, 49, 50, 51, 52, 53}" for m
    using that unfolding drum_type_run_calls by (simp add: drum_type_def AudioEngine_init_def)
  have mapped: "map (drum_type ?E) [35, 36, 38, 40, 41, 42, 43, 44, 45, 46, 47, 48, 49, 50, 51, 52, 53]
       = [''kick'', ''kick'', ''snare'', ''snare'', ''tom_low'', ''hihat_closed'', ''tom_low'',
          ''hihat_closed'', ''tom_mid'', ''hihat_open'', ''tom_low'', ''tom_mid'', ''crash'',
          ''tom_high'', ''ride'', ''crash'', ''ride'']"
    unfolding drum_type_run_calls by (simp add: drum_type_def AudioEngine_init_def)
  have plays: "\<exists>sound. drum_samples ?E (drum_type ?E note) = Some sound
      \<and> drum_samples (note_on ?E note velocity played) (drum_type ?E note)
          = Some (set_volume sound (real_of_int velocity / 127))
      \<and> mixer_calls (note_on ?E note velocity played)
          = mixer_calls ?E @ [Play (set_volume sound (real_of_int velocity / 127))]"
  proof -
    from reachable_sound [of syn rate calls "note"]
    obtain sound where sound: "drum_samples ?E (drum_type ?E note) = Some sound"
      by auto
    then show ?thesis
      by (cases played) (simp_all add: note_on_def Let_def)
  qed
  from unmapped [of 127] unmapped [of "note"] mapped plays show ?thesis
    by simp
qed

theorem note_on_plays_resolved_drum_type_witness:
  "(127 :: int) \<notin> {35, 36, 38, 40, 41, 42, 43, 44, 45, 46, 47, 48, 49, 50, 51, 52, 53}
   \<and> drum_type (run_calls (AudioEngine_init example_synthesis 44100) []) 127 = ''snare''
   \<and> mixer_calls (note_on (run_calls (AudioEngine_init example_synthesis 44100) []) 127 80 (Some 5))
       = [Play \<lparr>samples = [(27851, 27851)], volume = 5 / 8\<rparr>]
   \<and> drum_type (run_calls (AudioEngine_init example_synthesis 44100) []) 36 = ''kick''
   \<and> mixer_calls (note_on (run_calls (AudioEngine_init example_synthesis 44100) []) 36 127 None)
       = [Play \<lparr>samples = [(29490, 29490), (-3, -3)], volume = 1\<rparr>]"
proof -
  have bank: "drum_samples (run_calls (AudioEngine_init example_synthesis 44100) []) ''snare''
      = Some \<lparr>samples = [(27851, 27851)], volume = 1\<rparr>"
    "drum_samples (run_calls (AudioEngine_init example_synthesis 44100) []) ''kick''
      = Some \<lparr>samples = [(29490, 29490), (-3, -3)], volume = 1\<rparr>"
    "mixer_calls (run_calls (AudioEngine_init example_synthesis 44100) []) = []"
    by (simp_all add: run_calls_def AudioEngine_init_def generate_drum_samples_def make_sound_def
        example_synthesis_def)
  have gain: "set_volume \<lparr>samples = [(27851, 27851)], volume = 1\<rparr> (80 / 127)
      = \<lparr>samples = [(27851, 27851)], volume = 5 / 8\<rparr>"
    "set_volume \<lparr>samples = [(29490, 29490), (-3, -3)], volume = 1\<rparr> 1
      = \<lparr>samples = [(29490, 29490), (-3, -3)], volume = 1\<rparr>"
    by (simp_all add: set_volume_def)
  from note_on_plays_resolved_drum_type [of 127 example_synthesis 44100 "[]" 80 "Some 5"]
    note_on_plays_resolved_drum_type [of 36 example_synthesis 44100 "[]" 127 None]
  show ?thesis
    by (auto simp: bank gain)
qed

subsection \<open>The Sounds of the bank\<close>

lemma samples_note_on:
  "map_option samples (drum_samples (note_on eng note velocity played) k)
     = map_option samples (drum_samples eng k)"
  by (simp add: note_on_def samples_set_volume Let_def split: option.splits)

lemma samples_run_calls:
  "map_option samples (drum_samples (run_calls eng calls) k)
     = map_option samples (drum_samples eng k)"
proof (induction calls rule: rev_induct)
  case Nil
  show ?case
    by (simp add: run_calls_def)
next
  case (snoc c calls)
  then show ?case
    by (cases c) (simp_all add: run_calls_snoc samples_note_on drum_samples_note_off)
qed

lemma set_volume_of_velocity:
  "(velocity < 0 \<longrightarrow> set_volume sound (real_of_int velocity / 127) = sound)
   \<and> (0 \<le> velocity \<and> velocity \<le> 127 \<longrightarrow>
        set_volume sound (real_of_int velocity / 127)
          = sound\<lparr>volume := real_of_int (velocity * 128 div 127) / 128\<rparr>)
   \<and> (127 < velocity \<longrightarrow> set_volume sound (real_of_int velocity / 127) = sound\<lparr>volume := 1\<rparr>)"
proof -
  have "real_of_int velocity / 127 * 128 = real_of_int (velocity * 128) / real_of_int 127"
    by simp
  then have fl: "\<lfloor>real_of_int velocity / 127 * 128\<rfloor> = velocity * 128 div 127"
    by (simp only: floor_divide_of_int_eq)
  have neg: "set_volume sound (real_of_int velocity / 127) = sound" if "velocity < 0"
  proof -
    from that have "real_of_int velocity / 127 < 0"
      by simp
    then show ?thesis
      by (simp only: set_volume_def if_True)
  qed
  have stored: "set_volume sound (real_of_int velocity / 127)
      = sound\<lparr>volume := real_of_int (min 128 (velocity * 128 div 127)) / 128\<rparr>"
    if "0 \<le> velocity"
  proof -
    from that have "\<not> real_of_int velocity / 127 < 0"
      by simp
    then show ?thesis
      by (simp only: set_volume_def if_False fl)
  qed
  have small: "min 128 (velocity * 128 div 127) = velocity * 128 div 127" if "velocity \<le> 127"
    using that by simp
  have large: "min 128 (velocity * 128 div 127) = 128" if "127 < velocity"
    using that by simp
  have mid: "set_volume sound (real_of_int velocity / 127)
      = sound\<lparr>volume := real_of_int (velocity * 128 div 127) / 128\<rparr>"
    if "0 \<le> velocity \<and> velocity \<le> 127"
    using that stored small by simp
  have top: "set_volume sound (real_of_int velocity / 127) = sound\<lparr>volume := 1\<rparr>"
    if "127 < velocity"
    using that stored large by simp
  from neg mid top show ?thesis
    by blast
qed

text \<open>
  Claim C8, as the code has it. \<open>note_on\<close> sets the gain of the Sound it plays: after
  a \<open>note_on\<close> of note 36 with velocity 64 on a new engine, the gain of the kick Sound
  is one half and no longer 1.
\<close>

theorem sound_gain_mutated_counterexample:
  "map_option volume (drum_samples (AudioEngine_init example_synthesis 44100) ''kick'') = Some 1
   \<and> map_option volume
        (drum_samples (note_on (AudioEngine_init example_synthesis 44100) 36 64 (Some 3)) ''kick'')
       = Some (1 / 2)
   \<and> (1 / 2 :: real) \<noteq> 1"
  by (simp add: note_on_def set_volume_def drum_type_def AudioEngine_init_def
      generate_drum_samples_def make_sound_def Let_def)

text \<open>
  Claim C8, amended. No call of \<open>note_on\<close> or \<open>note_off\<close>, and no sequence of them,
  changes the sample buffer of a Sound of the bank. \<open>note_on\<close> changes one thing in
  the bank: the gain of the Sound of the resolved drum type, through
  \<^verbatim>\<open>set_volume(velocity / 127.0)\<close>. A negative velocity leaves that gain as it was, a
  velocity in 0..127 sets it to the whole number of 128ths below \<open>velocity / 127\<close>, and
  a velocity above 127 sets it to 1. Every other Sound is left as it was. \<open>note_off\<close>
  leaves the whole bank as it was.
\<close>

theorem sample_buffers_never_mutated:
  "map_option samples (drum_samples (run_calls eng calls) k)
     = map_option samples (drum_samples eng k)
   \<and> map_option samples (drum_samples (note_on eng note velocity played) k)
       = map_option samples (drum_samples eng k)
   \<and> (k \<noteq> drum_type eng note \<longrightarrow>
        drum_samples (note_on eng note velocity played) k = drum_samples eng k)
   \<and> (drum_samples eng (drum_type eng note) = Some sound \<longrightarrow>
        drum_samples (note_on eng note velocity played) (drum_type eng note)
          = Some (set_volume sound (real_of_int velocity / 127))
        \<and> (velocity < 0 \<longrightarrow> set_volume sound (real_of_int velocity / 127) = sound)
        \<and> (0 \<le> velocity \<and> velocity \<le> 127 \<longrightarrow>
             set_volume sound (real_of_int velocity / 127)
               = sound\<lparr>volume := real_of_int (velocity * 128 div 127) / 128\<rparr>)
        \<and> (127 < velocity \<longrightarrow>
             set_volume sound (real_of_int velocity / 127) = sound\<lparr>volume := 1\<rparr>))
   \<and> drum_samples (note_off eng note fade_raises) = drum_samples eng"
proof -
  have other: "drum_samples (note_on eng note velocity played) k = drum_samples eng k"
    if "k \<noteq> drum_type eng note"
    using that by (simp add: note_on_def Let_def split: option.splits)
  have resolved: "drum_samples (note_on eng note velocity played) (drum_type eng note)
          = Some (set_volume sound (real_of_int velocity / 127))"
    if "drum_samples eng (drum_type eng note) = Some sound"
    using that by (simp add: note_on_def Let_def split: option.splits)
  from other resolved set_volume_of_velocity [of velocity sound] show ?thesis
    by (simp add: samples_run_calls samples_note_on drum_samples_note_off)
qed

theorem sample_buffers_never_mutated_witness:
  "''snare'' \<noteq> drum_type (AudioEngine_init example_synthesis 44100) 36
   \<and> drum_samples (note_on (AudioEngine_init example_synthesis 44100) 36 64 (Some 3)) ''snare''
       = drum_samples (AudioEngine_init example_synthesis 44100) ''snare''
   \<and> drum_samples (AudioEngine_init example_synthesis 44100)
        (drum_type (AudioEngine_init example_synthesis 44100) 36)
       = Some \<lparr>samples = [(29490, 29490), (-3, -3)], volume = 1\<rparr>
   \<and> drum_samples (note_on (AudioEngine_init example_synthesis 44100) 36 64 (Some 3))
        (drum_type (AudioEngine_init example_synthesis 44100) 36)
       = Some \<lparr>samples = [(29490, 29490), (-3, -3)], volume = 1 / 2\<rparr>
   \<and> drum_samples (note_on (AudioEngine_init example_synthesis 44100) 36 200 (Some 3))
        (drum_type (AudioEngine_init example_synthesis 44100) 36)
       = Some \<lparr>samples = [(29490, 29490), (-3, -3)], volume = 1\<rparr>"
proof -
  have ty: "drum_type (AudioEngine_init example_synthesis 44100) 36 = ''kick''"
    by (simp add: drum_type_def AudioEngine_init_def)
  have kick: "drum_samples (AudioEngine_init example_synthesis 44100) ''kick''
      = Some \<lparr>samples = [(29490, 29490), (-3, -3)], volume = 1\<rparr>"
    by (simp add: AudioEngine_init_def generate_drum_samples_def make_sound_def
        example_synthesis_def)
  show ?thesis
    using sample_buffers_never_mutated [of "AudioEngine_init example_synthesis 44100" "[]"
        "''snare''" 36 64 "Some 3" "\<lparr>samples = [(29490, 29490), (-3, -3)], volume = 1\<rparr>" False]
      sample_buffers_never_mutated [of "AudioEngine_init example_synthesis 44100" "[]"
        "''snare''" 36 200 "Some 3" "\<lparr>samples = [(29490, 29490), (-3, -3)], volume = 1\<rparr>" False]
    by (simp add: ty kick)
qed

section \<open>Properties of the synthesis recipes\<close>

lemma py_int_bounds:
  assumes "\<bar>x\<bar> \<le> b"
  shows "- \<lfloor>b\<rfloor> \<le> py_int x \<and> py_int x \<le> \<lfloor>b\<rfloor>"
proof (cases "0 \<le> x")
  case True
  with assms have "0 \<le> \<lfloor>x\<rfloor>" and "\<lfloor>x\<rfloor> \<le> \<lfloor>b\<rfloor>"
    by (simp_all add: floor_mono)
  then have "- \<lfloor>b\<rfloor> \<le> \<lfloor>x\<rfloor> \<and> \<lfloor>x\<rfloor> \<le> \<lfloor>b\<rfloor>"
    by linarith
  with True show ?thesis
    by (simp only: py_int_def if_True)
next
  case False
  with assms have "- b \<le> x"
    by simp
  then have "\<lceil>- b\<rceil> \<le> \<lceil>x\<rceil>"
    by (rule ceiling_mono)
  moreover have "\<lceil>- b\<rceil> = - \<lfloor>b\<rfloor>"
    by (simp add: ceiling_def)
  moreover from False have "\<lceil>x\<rceil> \<le> 0"
    by (simp add: ceiling_le_iff)
  moreover from False assms have "0 \<le> \<lfloor>b\<rfloor>"
    by simp
  ultimately have "- \<lfloor>b\<rfloor> \<le> \<lceil>x\<rceil> \<and> \<lceil>x\<rceil> \<le> \<lfloor>b\<rfloor>"
    by linarith
  with False show ?thesis
    by (simp only: py_int_def if_False)
qed

lemma py_int_of_signed:
  assumes "0 \<le> b" and "\<bar>x\<bar> = b"
  shows "\<bar>py_int x\<bar> = \<lfloor>b\<rfloor>"
proof (cases "0 \<le> x")
  case True
  with assms show ?thesis
    by (simp add: py_int_def)
next
  case False
  with assms have "x = - b"
    by simp
  with False assms show ?thesis
    by (simp add: py_int_def ceiling_def)
qed

lemma sint_astype_int16:
  assumes "\<bar>x\<bar> \<le> 32767"
  shows "sint (astype_int16 x) = py_int x"
proof -
  from py_int_bounds [OF assms] have "- 32767 \<le> py_int x" and "py_int x \<le> 32767"
    by simp_all
  then have "signed_take_bit 15 (py_int x) = py_int x"
    by (simp add: signed_take_bit_int_eq_self)
  then show ?thesis
    by (simp add: astype_int16_def sint_sbintrunc')
qed

lemma normalize_and_convert_ok:
  assumes nonzero: "\<exists>x \<in> set wave. x \<noteq> 0" and lo: "1 / 2 \<le> target" and hi: "target \<le> 9 / 10"
  shows "normalized_stereo target wave (normalize_and_convert target wave)"
proof -
  define peak where "peak = Max (set (map abs wave))"
  define w where "w = map (\<lambda>x. x / peak * target) wave"
  from nonzero obtain x0 where x0: "x0 \<in> set wave" "x0 \<noteq> 0"
    by blast
  then have nonempty: "wave \<noteq> []"
    by auto
  have le_peak: "\<bar>x\<bar> \<le> peak" if "x \<in> set wave" for x
    using that unfolding peak_def by (intro Max_ge) auto
  from le_peak [OF x0(1)] x0(2) have peak_pos: "0 < peak"
    by simp
  have "peak \<in> set (map abs wave)"
    unfolding peak_def using nonempty by (intro Max_in) auto
  then obtain xm where xm: "xm \<in> set wave" "\<bar>xm\<bar> = peak"
    by auto
  have peak_eq: "Max (set (map abs wave)) = peak"
    by (simp only: peak_def)
  have norm: "normalize target wave = Inr w"
    unfolding normalize_def Let_def peak_eq w_def using nonempty peak_pos by simp
  have len: "length w = length wave"
    by (simp add: w_def)
  have abs_w: "\<bar>x / peak * target\<bar> = \<bar>x\<bar> / peak * target" for x
    using peak_pos lo by (simp add: abs_mult)
  have bound: "\<bar>y\<bar> \<le> target" if "y \<in> set w" for y
  proof -
    from that obtain x where x: "x \<in> set wave" "y = x / peak * target"
      by (auto simp: w_def)
    from le_peak [OF x(1)] peak_pos have "\<bar>x\<bar> / peak \<le> 1"
      by simp
    with lo have "\<bar>x\<bar> / peak * target \<le> 1 * target"
      by (intro mult_right_mono) simp_all
    with x(2) abs_w [of x] show ?thesis
      by simp
  qed
  define ym where "ym = xm / peak * target"
  have ym: "ym \<in> set w" "\<bar>ym\<bar> = target"
    using xm peak_pos abs_w [of xm] by (auto simp: ym_def w_def)
  have peak_w: "Max (set (map abs w)) = target"
  proof (rule Max_eqI)
    show "finite (set (map abs w))"
      by simp
    show "y \<le> target" if "y \<in> set (map abs w)" for y
      using that bound by auto
    show "target \<in> set (map abs w)"
      using ym by force
  qed
  have result: "normalize_and_convert target wave
      = Inr (make_sound (map (\<lambda>x. (astype_int16 (x * 32767), astype_int16 (x * 32767))) w))"
    by (simp add: normalize_and_convert_def norm column_stack_def comp_def)
  have fits: "sint (astype_int16 (y * 32767)) = py_int (y * 32767)" if "y \<in> set w" for y
  proof -
    from bound [OF that] hi have "\<bar>y\<bar> \<le> 1"
      by simp
    then have "\<bar>y * 32767\<bar> \<le> 32767"
      by (simp add: abs_mult)
    then show ?thesis
      by (rule sint_astype_int16)
  qed
  have "\<bar>ym * 32767\<bar> = target * 32767"
    using ym(2) by (simp add: abs_mult)
  with lo have loud: "\<bar>py_int (ym * 32767)\<bar> = \<lfloor>target * 32767\<rfloor>"
    by (intro py_int_of_signed) simp_all
  from lo have "1 \<le> target * 32767"
    by simp
  then have "1 \<le> \<lfloor>target * 32767\<rfloor>"
    by (simp add: le_floor_iff)
  with loud ym(1) have audible:
    "\<exists>x \<in> set w. \<bar>py_int (x * 32767)\<bar> = \<lfloor>target * 32767\<rfloor> \<and> 0 < \<lfloor>target * 32767\<rfloor>"
    by force
  from lo hi norm len peak_w result fits audible show ?thesis
    unfolding normalized_stereo_def by blast
qed

lemma no_samples:
  assumes "x < 1"
  shows "nat (py_int x) = 0"
proof (cases "0 \<le> x")
  case True
  with assms have "\<lfloor>x\<rfloor> = 0"
    by (simp add: floor_unique)
  with True show ?thesis
    by (simp add: py_int_def)
next
  case False
  then have "\<lceil>x\<rceil> \<le> 0"
    by (simp add: ceiling_le_iff)
  with False show ?thesis
    by (simp add: py_int_def)
qed

lemma normalize_and_convert_empty: "normalize_and_convert target [] = Inl ValueError"
  by (simp add: normalize_and_convert_def normalize_def)

text \<open>
  At a sample rate where a recipe has no sample, its waveform is the empty array.
\<close>

lemma empty_waves:
  "rate < 2 \<Longrightarrow> kick_wave rate randn = []"
  "rate < 5 \<Longrightarrow> snare_wave rate randn = []"
  "rate < 20 \<Longrightarrow> hihat_closed_wave rate randn = []"
  "rate < 4 \<Longrightarrow> hihat_open_wave rate randn = []"
  "rate < 3 \<Longrightarrow> tom_wave rate base_freq = []"
  "rate < 1 \<Longrightarrow> crash_wave rate randn = []"
  "rate < 1 \<Longrightarrow> ride_wave rate randn = []"
  by (simp_all add: kick_wave_def snare_wave_def hihat_closed_wave_def hihat_open_wave_def
      tom_wave_def crash_wave_def ride_wave_def no_samples)

text \<open>
  Claim C9, as the code has it. At the sample rate 19 the closed hi-hat, which lasts 0.05
  seconds, has \<open>int(19 * 0.05) = 0\<close> samples: its waveform is empty, \<^verbatim>\<open>np.max\<close> raises
  ValueError and the recipe produces no buffer.
\<close>

theorem recipe_without_samples_counterexample:
  "hihat_closed_wave 19 example_randn = []
   \<and> create_hihat_closed 19 example_randn = Inl ValueError"
  by (simp add: create_hihat_closed_def normalize_and_convert_def normalize_def
      hihat_closed_wave_def py_int_def)

text \<open>
  Claim C9, amended. For every sample rate and every array of random numbers, each of the
  seven recipes whose raw waveform has a sample other than 0 returns a Sound with the
  property \<open>normalized_stereo\<close> for its target peak: kick 0.9, snare 0.85, closed hi-hat
  0.6, open hi-hat 0.5, tom 0.8 (for every base frequency), crash 0.6 and ride 0.65. At a
  sample rate so low that the recipe has no sample (below 2 for the kick, 5 for the
  snare, 20 for the closed hi-hat, 4 for the open hi-hat, 3 for a tom, 1 for crash and
  ride) the recipe raises ValueError and returns no buffer.
\<close>

theorem recipes_normalized:
  "((\<exists>x \<in> set (kick_wave rate randn). x \<noteq> 0) \<longrightarrow>
      normalized_stereo (9 / 10) (kick_wave rate randn) (create_kick rate randn))
   \<and> ((\<exists>x \<in> set (snare_wave rate randn). x \<noteq> 0) \<longrightarrow>
      normalized_stereo (85 / 100) (snare_wave rate randn) (create_snare rate randn))
   \<and> ((\<exists>x \<in> set (hihat_closed_wave rate randn). x \<noteq> 0) \<longrightarrow>
      normalized_stereo (6 / 10) (hihat_closed_wave rate randn) (create_hihat_closed rate randn))
   \<and> ((\<exists>x \<in> set (hihat_open_wave rate randn). x \<noteq> 0) \<longrightarrow>
      normalized_stereo (5 / 10) (hihat_open_wave rate randn) (create_hihat_open rate randn))
   \<and> ((\<exists>x \<in> set (tom_wave rate base_freq). x \<noteq> 0) \<longrightarrow>
      normalized_stereo (8 / 10) (tom_wave rate base_freq) (create_tom rate base_freq))
   \<and> ((\<exists>x \<in> set (crash_wave rate randn). x \<noteq> 0) \<longrightarrow>
      normalized_stereo (6 / 10) (crash_wave rate randn) (create_crash rate randn))
   \<and> ((\<exists>x \<in> set (ride_wave rate randn). x \<noteq> 0) \<longrightarrow>
      normalized_stereo (65 / 100) (ride_wave rate randn) (create_ride rate randn))
   \<and> (rate < 2 \<longrightarrow> create_kick rate randn = Inl ValueError)
   \<and> (rate < 5 \<longrightarrow> create_snare rate randn = Inl ValueError)
   \<and> (rate < 20 \<longrightarrow> create_hihat_closed rate randn = Inl ValueError)
   \<and> (rate < 4 \<longrightarrow> create_hihat_open rate randn = Inl ValueError)
   \<and> (rate < 3 \<longrightarrow> create_tom rate base_freq = Inl ValueError)
   \<and> (rate < 1 \<longrightarrow> create_crash rate randn = Inl ValueError)
   \<and> (rate < 1 \<longrightarrow> create_ride rate randn = Inl ValueError)"
  by (simp add: normalize_and_convert_ok normalize_and_convert_empty empty_waves
      create_kick_def create_snare_def create_hihat_closed_def create_hihat_open_def
      create_tom_def create_crash_def create_ride_def)

lemma normalized_stereo_single:
  assumes "normalized_stereo target [x] result" and "0 < x"
  shows "result = Inr (make_sound [(astype_int16 (target * 32767), astype_int16 (target * 32767))])"
  using assms by (auto simp: normalized_stereo_def normalize_def)

theorem recipes_normalized_witness:
  "kick_wave 2 example_randn = [3 / 10]
   \<and> create_kick 2 example_randn = Inr \<lparr>samples = [(29490, 29490)], volume = 1\<rparr>
   \<and> snare_wave 5 example_randn = [7 / 10]
   \<and> create_snare 5 example_randn = Inr \<lparr>samples = [(27851, 27851)], volume = 1\<rparr>
   \<and> hihat_closed_wave 20 example_randn = [1]
   \<and> create_hihat_closed 20 example_randn = Inr \<lparr>samples = [(19660, 19660)], volume = 1\<rparr>
   \<and> hihat_open_wave 4 example_randn = [1]
   \<and> create_hihat_open 4 example_randn = Inr \<lparr>samples = [(16383, 16383)], volume = 1\<rparr>
   \<and> tom_wave 4 1 = [9 / 10]
   \<and> create_tom 4 1 = Inr \<lparr>samples = [(26213, 26213)], volume = 1\<rparr>
   \<and> crash_wave 1 example_randn = [1]
   \<and> create_crash 1 example_randn = Inr \<lparr>samples = [(19660, 19660)], volume = 1\<rparr>
   \<and> ride_wave 1 example_randn = [3 / 10]
   \<and> create_ride 1 example_randn = Inr \<lparr>samples = [(21298, 21298)], volume = 1\<rparr>
   \<and> create_hihat_closed 19 example_randn = Inl ValueError"
proof -
  have "3 * pi / 2 = 3 / 2 * pi"
    by simp
  then have sin3: "sin (3 * pi / 2) = - 1"
    by (simp only: sin_3over2_pi)
  have waves: "kick_wave 2 example_randn = [3 / 10]" "snare_wave 5 example_randn = [7 / 10]"
    "hihat_closed_wave 20 example_randn = [1]" "hihat_open_wave 4 example_randn = [1]"
    "tom_wave 4 1 = [9 / 10]" "crash_wave 1 example_randn = [1]"
    "ride_wave 1 example_randn = [3 / 10]"
    by (simp_all add: kick_wave_def snare_wave_def hihat_closed_wave_def hihat_open_wave_def
        tom_wave_def crash_wave_def ride_wave_def py_int_def linspace_def example_randn_def sin3)
  note inst = recipes_normalized [where randn = example_randn and base_freq = 1]
  have "\<exists>x \<in> set (kick_wave 2 example_randn). x \<noteq> 0"
    by (rule bexI [of _ "3 / 10"]) (simp_all add: waves)
  with inst [of 2]
  have "normalized_stereo (9 / 10) (kick_wave 2 example_randn) (create_kick 2 example_randn)"
    by blast
  then have kick: "create_kick 2 example_randn
      = Inr (make_sound [(astype_int16 (9 / 10 * 32767), astype_int16 (9 / 10 * 32767))])"
    unfolding waves(1) by (rule normalized_stereo_single) simp
  have "\<exists>x \<in> set (snare_wave 5 example_randn). x \<noteq> 0"
    by (rule bexI [of _ "7 / 10"]) (simp_all add: waves)
  with inst [of 5]
  have "normalized_stereo (85 / 100) (snare_wave 5 example_randn) (create_snare 5 example_randn)"
    by blast
  then have snare: "create_snare 5 example_randn
      = Inr (make_sound [(astype_int16 (85 / 100 * 32767), astype_int16 (85 / 100 * 32767))])"
    unfolding waves(2) by (rule normalized_stereo_single) simp
  have "\<exists>x \<in> set (hihat_closed_wave 20 example_randn). x \<noteq> 0"
    by (rule bexI [of _ "1"]) (simp_all add: waves)
  with inst [of 20]
  have "normalized_stereo (6 / 10) (hihat_closed_wave 20 example_randn) (create_hihat_closed 20 example_randn)"
    by blast
  then have hihat_closed: "create_hihat_closed 20 example_randn
      = Inr (make_sound [(astype_int16 (6 / 10 * 32767), astype_int16 (6 / 10 * 32767))])"
    unfolding waves(3) by (rule normalized_stereo_single) simp
  have "\<exists>x \<in> set (hihat_open_wave 4 example_randn). x \<noteq> 0"
    by (rule bexI [of _ "1"]) (simp_all add: waves)
  with inst [of 4]
  have "normalized_stereo (5 / 10) (hihat_open_wave 4 example_randn) (create_hihat_open 4 example_randn)"
    by blast
  then have hihat_open: "create_hihat_open 4 example_randn
      = Inr (make_sound [(astype_int16 (5 / 10 * 32767), astype_int16 (5 / 10 * 32767))])"
    unfolding waves(4) by (rule normalized_stereo_single) simp
  have "\<exists>x \<in> set (tom_wave 4 1). x \<noteq> 0"
    by (rule bexI [of _ "9 / 10"]) (simp_all add: waves)
  with inst [of 4]
  have "normalized_stereo (8 / 10) (tom_wave 4 1) (create_tom 4 1)"
    by blast
  then have tom: "create_tom 4 1
      = Inr (make_sound [(astype_int16 (8 / 10 * 32767), astype_int16 (8 / 10 * 32767))])"
    unfolding waves(5) by (rule normalized_stereo_single) simp
  have "\<exists>x \<in> set (crash_wave 1 example_randn). x \<noteq> 0"
    by (rule bexI [of _ "1"]) (simp_all add: waves)
  with inst [of 1]
  have "normalized_stereo (6 / 10) (crash_wave 1 example_randn) (create_crash 1 example_randn)"
    by blast
  then have crash: "create_crash 1 example_randn
      = Inr (make_sound [(astype_int16 (6 / 10 * 32767), astype_int16 (6 / 10 * 32767))])"
    unfolding waves(6) by (rule normalized_stereo_single) simp
  have "\<exists>x \<in> set (ride_wave 1 example_randn). x \<noteq> 0"
    by (rule bexI [of _ "3 / 10"]) (simp_all add: waves)
  with inst [of 1]
  have "normalized_stereo (65 / 100) (ride_wave 1 example_randn) (create_ride 1 example_randn)"
    by blast
  then have ride: "create_ride 1 example_randn
      = Inr (make_sound [(astype_int16 (65 / 100 * 32767), astype_int16 (65 / 100 * 32767))])"
    unfolding waves(7) by (rule normalized_stereo_single) simp
  have none: "create_hihat_closed 19 example_randn = Inl ValueError"
    using inst [of 19] by simp
  show ?thesis
    unfolding kick snare hihat_closed hihat_open tom crash ride none
    by (simp add: waves make_sound_def astype_int16_def py_int_def)
qed

end
